theory Spec2Isabelle
  imports Main "HOL-Library.Sublist"
begin

section \<open>JavaScript values\<close>

text \<open>
  The action handles loosely typed data: the payload file, the agent's responses and the
  plan are whatever \<^verbatim>\<open>JSON.parse\<close> returned. A value is one of JavaScript's
  kinds; an object is the list of its own properties, each key once. Numbers are the
  integer-valued ones (only their truthiness and their equality are ever used).
\<close>

datatype jsval =
    JUndefined
  | JNull
  | JBool bool
  | JNum int
  | JStr string
  | JArr "jsval list"
  | JObj "(string \<times> jsval) list"

text \<open>\<^verbatim>\<open>Boolean(v)\<close>, the test of \<^verbatim>\<open>if (v)\<close>, \<^verbatim>\<open>!v\<close> and \<^verbatim>\<open>a || b\<close>.\<close>

fun truthy :: "jsval \<Rightarrow> bool" where
  "truthy JUndefined = False"
| "truthy JNull = False"
| "truthy (JBool b) = b"
| "truthy (JNum n) = (n \<noteq> 0)"
| "truthy (JStr s) = (s \<noteq> [])"
| "truthy (JArr xs) = True"
| "truthy (JObj kvs) = True"

text \<open>
  \<^verbatim>\<open>v.k\<close> on a value that is neither \<^verbatim>\<open>null\<close> nor \<^verbatim>\<open>undefined\<close>. None of the
  property names the action reads is a built-in property of strings, numbers or arrays,
  so only objects answer. Reading a property of \<^verbatim>\<open>null\<close> or \<^verbatim>\<open>undefined\<close> throws
  a TypeError in JavaScript: every function below that can meet such a value tests for
  it first and returns the error.
\<close>

fun getProp :: "jsval \<Rightarrow> string \<Rightarrow> jsval" where
  "getProp (JObj kvs) k = (case map_of kvs k of None \<Rightarrow> JUndefined | Some v \<Rightarrow> v)"
| "getProp v k = JUndefined"

fun nullish :: "jsval \<Rightarrow> bool" where
  "nullish JUndefined = True"
| "nullish JNull = True"
| "nullish v = False"

text \<open>\<^verbatim>\<open>a || b\<close> and \<^verbatim>\<open>a ?? b\<close>.\<close>

definition js_or :: "jsval \<Rightarrow> jsval \<Rightarrow> jsval" where
  "js_or a b = (if truthy a then a else b)"

definition js_coalesce :: "jsval \<Rightarrow> jsval \<Rightarrow> jsval" where
  "js_coalesce a b = (if nullish a then b else a)"

text \<open>
  \<^verbatim>\<open>a === b\<close> between a value and a literal, or between values of two different
  \<^verbatim>\<open>JSON.parse\<close> calls: primitives compare by value, while an object or an array is
  identical only to itself, and so to neither a literal nor a value parsed earlier.
\<close>

fun is_reference :: "jsval \<Rightarrow> bool" where
  "is_reference (JArr xs) = True"
| "is_reference (JObj kvs) = True"
| "is_reference v = False"

definition strict_eq :: "jsval \<Rightarrow> jsval \<Rightarrow> bool" where
  "strict_eq a b = (\<not> is_reference a \<and> \<not> is_reference b \<and> a = b)"

section \<open>Effects, errors and the environment\<close>

text \<open>The three keys of \<^verbatim>\<open>PIPELINE_CONFIG.agents\<close>.\<close>

datatype agent = Ticket | Coder | Reviewer

text \<open>
  The lines the action prints. A line is recorded by what it is made from, not by its
  text: \<open>AgentStatusLine key status message\<close> is the \<^verbatim>\<open>logLine\<close> of
  \<^verbatim>\<open>logAgentStatus\<close>, built from the agent's configuration, the status and
  \<^verbatim>\<open>details.message\<close>.
\<close>

datatype line =
    AgentStatusLine agent jsval jsval
  | FilesModified jsval
  | IssuesFound jsval
  | PollingStarted jsval
  | Blank
  | PollAttempt nat
  | StatusNotJson
  | JobCompleted jsval nat
  | JobFailed jsval jsval
  | StillProcessing jsval
  | UnknownStatus jsval
  | HeaderRule
  | HeaderTitle
  | PrCreated jsval
  | PrLink string string jsval
  | PipelineCompleted
  | NoApiKey
  | CallingAgent
  | AgentNotJson
  | ApplyingChanges nat
  | WroteFile jsval
  | RemovedFile jsval
  | NoStagedChanges
  | NoChangesAfterPlan
  | NoRepository
  | NoBranch
  | NoToken
  | UpdatingPull jsval
  | CreatingPull jsval jsval
  | GitHubNotJson
  | UnsupportedMergeStrategy jsval
  | Merged jsval string

text \<open>
  What a run does to the outside, in order: \<open>Sleep ms\<close> is the awaited timer,
  \<open>HttpGetStatus runId\<close> the \<^verbatim>\<open>GET /agent/status/${runId}\<close> request,
  \<open>HttpPostAgent url\<close> the invocation, \<open>RunGit args\<close> a \<^verbatim>\<open>runCommand('git', args)\<close>,
  \<open>GitHubCall\<close> a \<^verbatim>\<open>githubRequest\<close>, \<open>Mkdir\<close>, \<open>WriteFile\<close> and \<open>Remove\<close> the
  calls of \<^verbatim>\<open>fs.mkdir\<close>, \<^verbatim>\<open>fs.writeFile\<close> and \<^verbatim>\<open>fs.rm\<close> with their resolved
  paths, \<open>SetOutput\<close> and \<open>SetFailed\<close> the calls of \<^verbatim>\<open>setOutput\<close> and
  \<^verbatim>\<open>setFailed\<close>, and \<open>Notice\<close>, \<open>Warning\<close>, \<open>Debug\<close> the calls of
  \<^verbatim>\<open>toNotice\<close>, \<^verbatim>\<open>toWarning\<close> and \<^verbatim>\<open>toDebug\<close>. A path is the list of the
  segments of an absolute, normalised path. The requests to the repository host carry
  what their URL and body are built from.
\<close>

type_synonym path = "string list"

text \<open>
  What is written to a file: a string as it is, a decoded buffer, the chunks of an array,
  or the text of a value or of a buffer.
\<close>

datatype content =
    Raw jsval
  | RawBuffer string
  | Chunks "jsval list"
  | Utf8 jsval
  | Utf8OfBuffer string

record repo =
  owner :: string
  name :: string

datatype endpoint = FromPayload jsval | FromBase string

text \<open>The four outputs; the URL is named by its repository, the value is the number.\<close>

datatype outputName = RunId | Status | PrNumber | PrUrl repo

text \<open>A pull request's title: the plan's, or the default made from the branch name.\<close>

datatype prTitle = GivenTitle jsval | DefaultTitle jsval

datatype gh_request =
    UpdatePull repo jsval prTitle jsval bool
  | CreatePull repo jsval jsval prTitle jsval bool
  | RequestReviewers repo jsval jsval jsval
  | MergePull repo jsval string

datatype error =
    JobNotFound jsval
  | JobExpired jsval
  | StatusCheckFailed nat string
  | JobTimedOut jsval
  | TypeError
  | RangeError
  | FetchFailed string
  | InputRequired string
  | ReadFailed path
  | PayloadNotJson path
  | UnresolvedEndpoint
  | InvalidBaseUrl string
  | ApiRequestFailed nat string
  | CommandFailed "jsval list"
  | GitHubRequestFailed nat string
  | FsFailed string path

datatype event =
    Sleep nat
  | HttpGetStatus jsval
  | Notice line
  | Warning line
  | Debug line
  | ReadFile path
  | HttpPostAgent endpoint
  | RunGit "jsval list"
  | GitHubCall gh_request
  | Mkdir path
  | WriteFile path content
  | Remove path
  | SetOutput outputName jsval
  | SetFailed error

text \<open>
  An HTTP response as the action reads it: the status code, the body text
  (\<^verbatim>\<open>response.text()\<close>) and what \<^verbatim>\<open>JSON.parse\<close> makes of that text, \<open>None\<close>
  when it throws. A \<^verbatim>\<open>fetch\<close> either rejects or resolves to a response.
\<close>

record response =
  status_code :: nat
  raw :: string
  parsed :: "jsval option"

datatype fetch_result = Rejected string | Response response

text \<open>\<^verbatim>\<open>response.ok\<close>: the status is in the range 200-299.\<close>

definition ok :: "response \<Rightarrow> bool" where
  "ok r = (200 \<le> status_code r \<and> status_code r \<le> 299)"

text \<open>A computation's result: the events it produced and its error or value.\<close>

type_synonym 'a outcome = "event list \<times> (error + 'a)"

definition emit :: "event list \<Rightarrow> 'a outcome \<Rightarrow> 'a outcome" where
  "emit evs res = (evs @ fst res, snd res)"

section \<open>Agent status logging\<close>

text \<open>
  \<^verbatim>\<open>logAgentStatus(agentKey, status, details)\<close>: one status line, a warning when the
  status is \<^verbatim>\<open>'failed'\<close> and a notice otherwise, then one more notice for a truthy
  \<^verbatim>\<open>details.files_count\<close> and one for a truthy \<^verbatim>\<open>details.issues_count\<close>.
\<close>

definition logAgentStatus :: "agent \<Rightarrow> jsval \<Rightarrow> jsval \<Rightarrow> jsval \<Rightarrow> jsval \<Rightarrow> event list" where
  "logAgentStatus agentKey status message files_count issues_count =
     [if strict_eq status (JStr ''failed'')
      then Warning (AgentStatusLine agentKey status message)
      else Notice (AgentStatusLine agentKey status message)]
     @ (if truthy files_count then [Notice (FilesModified files_count)] else [])
     @ (if truthy issues_count then [Notice (IssuesFound issues_count)] else [])"

section \<open>The job poller\<close>

definition maxAttempts :: nat where
  "maxAttempts = 120"

definition pollInterval :: nat where
  "pollInterval = 5000"

text \<open>\<^verbatim>\<open>lastLoggedStatus\<close>: the last status logged for the coder and for the reviewer.\<close>

record lastLogged =
  coder_last :: jsval
  reviewer_last :: jsval

definition noneLogged :: lastLogged where
  "noneLogged = \<lparr>coder_last = JUndefined, reviewer_last = JUndefined\<rparr>"

text \<open>The block under \<^verbatim>\<open>if (data.pipeline)\<close> of the loop body.\<close>

definition logCoder :: "jsval \<Rightarrow> lastLogged \<Rightarrow> event list \<times> lastLogged" where
  "logCoder coder seen =
     (if truthy coder \<and> \<not> strict_eq (getProp coder ''status'') (coder_last seen)
      then (logAgentStatus Coder (getProp coder ''status'') (getProp coder ''message'')
              (getProp coder ''files_count'') JUndefined,
            seen\<lparr>coder_last := getProp coder ''status''\<rparr>)
      else ([], seen))"

definition logReviewer :: "jsval \<Rightarrow> lastLogged \<Rightarrow> event list \<times> lastLogged" where
  "logReviewer reviewer seen =
     (if truthy reviewer \<and> \<not> strict_eq (getProp reviewer ''status'') (reviewer_last seen)
      then (logAgentStatus Reviewer (getProp reviewer ''status'') (getProp reviewer ''message'')
              JUndefined (getProp reviewer ''issues_count''),
            seen\<lparr>reviewer_last := getProp reviewer ''status''\<rparr>)
      else ([], seen))"

definition logPipeline :: "jsval \<Rightarrow> lastLogged \<Rightarrow> event list \<times> lastLogged" where
  "logPipeline data seen =
     (if truthy (getProp data ''pipeline'') then
        (let c = logCoder (getProp (getProp data ''pipeline'') ''coder'') seen;
             r = logReviewer (getProp (getProp data ''pipeline'') ''reviewer'') (snd c)
         in (fst c @ fst r, snd r))
      else ([], seen))"

text \<open>
  The \<^verbatim>\<open>for\<close> loop of \<^verbatim>\<open>pollAgentStatus\<close>, from \<open>attempt\<close> on. \<open>fetch i\<close> is
  what the request of attempt \<open>i\<close> meets. The body is checked only after it parsed
  (an unparsable body goes to the next attempt), and a parsed \<^verbatim>\<open>null\<close> makes
  \<^verbatim>\<open>data.pipeline\<close> throw.
\<close>

function pollLoop :: "(nat \<Rightarrow> fetch_result) \<Rightarrow> jsval \<Rightarrow> nat \<Rightarrow> lastLogged \<Rightarrow> jsval outcome" where
  "pollLoop fetch runId attempt seen =
     (if attempt < maxAttempts then
        emit [Sleep pollInterval, Debug (PollAttempt (attempt + 1)), HttpGetStatus runId]
          (case fetch attempt of
             Rejected msg \<Rightarrow> ([], Inl (FetchFailed msg))
           | Response r \<Rightarrow>
               (case parsed r of
                  None \<Rightarrow> emit [Warning StatusNotJson] (pollLoop fetch runId (attempt + 1) seen)
                | Some data \<Rightarrow>
                    if \<not> ok r then
                      (if status_code r = 404 then ([], Inl (JobNotFound runId))
                       else if status_code r = 410 then ([], Inl (JobExpired runId))
                       else ([], Inl (StatusCheckFailed (status_code r) (take 200 (raw r)))))
                    else if nullish data then ([], Inl TypeError)
                    else
                      emit (fst (logPipeline data seen))
                        (if strict_eq (getProp data ''status'') (JStr ''completed'') then
                           ([Notice Blank,
                             Notice (JobCompleted runId (((attempt + 1) * pollInterval) div 1000))],
                            Inr data)
                         else if strict_eq (getProp data ''status'') (JStr ''failed'') then
                           ([Warning (JobFailed runId
                               (js_or (getProp data ''error'') (JStr ''Unknown error'')))],
                            Inr (js_or (getProp data ''result'') data))
                         else if strict_eq (getProp data ''status'') (JStr ''processing'') then
                           emit [Debug (StillProcessing
                                   (js_or (getProp data ''elapsed_seconds'')
                                      (JNum (int ((attempt + 1) * 5)))))]
                             (pollLoop fetch runId (attempt + 1) (snd (logPipeline data seen)))
                         else
                           emit [Warning (UnknownStatus (getProp data ''status''))]
                             (pollLoop fetch runId (attempt + 1) (snd (logPipeline data seen))))))
      else ([], Inl (JobTimedOut runId)))"
  by pat_completeness auto
termination
  by (relation "measure (\<lambda>(fetch, runId, attempt, seen). maxAttempts - attempt)") auto

text \<open>
  \<^verbatim>\<open>pollAgentStatus(baseUrl, apiKey, runId)\<close> for a base URL on which the status
  URL can be built (\<open>callAgent\<close> below has the other case); the credential only adds a
  header to each request.
\<close>

definition pollAgentStatus :: "(nat \<Rightarrow> fetch_result) \<Rightarrow> jsval \<Rightarrow> jsval outcome" where
  "pollAgentStatus fetch runId =
     emit [Notice (PollingStarted runId), Notice Blank] (pollLoop fetch runId 0 noneLogged)"

declare pollLoop.simps [simp del]

section \<open>Observing a run\<close>

text \<open>The status requests of a run, and its timer and request events.\<close>

fun is_request :: "event \<Rightarrow> bool" where
  "is_request (HttpGetStatus r) = True"
| "is_request e = False"

fun is_timing :: "event \<Rightarrow> bool" where
  "is_timing (Sleep n) = True"
| "is_timing (HttpGetStatus r) = True"
| "is_timing e = False"

definition attempts :: "event list \<Rightarrow> nat" where
  "attempts tr = length (filter is_request tr)"

text \<open>The statuses of the status lines a run printed for one agent, in order.\<close>

fun statusNote :: "agent \<Rightarrow> event \<Rightarrow> jsval list" where
  "statusNote k (Notice (AgentStatusLine a s m)) = (if a = k then [s] else [])"
| "statusNote k (Warning (AgentStatusLine a s m)) = (if a = k then [s] else [])"
| "statusNote k e = []"

definition notified :: "agent \<Rightarrow> event list \<Rightarrow> jsval list" where
  "notified k tr = concat (map (statusNote k) tr)"

text \<open>
  What the remote job says about one agent in one poll: the status of the agent's entry
  under \<^verbatim>\<open>pipeline\<close> of a 2xx response whose body parsed, and nothing when there is no
  such entry. \<open>reports k fetch a n\<close> collects it over the polls \<open>a\<close>, ..., \<open>a + n - 1\<close>.
\<close>

fun agentField :: "agent \<Rightarrow> string" where
  "agentField Ticket = ''ticket''"
| "agentField Coder = ''coder''"
| "agentField Reviewer = ''reviewer''"

fun reported :: "agent \<Rightarrow> fetch_result \<Rightarrow> jsval list" where
  "reported k (Rejected msg) = []"
| "reported k (Response r) =
     (case parsed r of
        None \<Rightarrow> []
      | Some d \<Rightarrow>
          if ok r \<and> truthy (getProp d ''pipeline'') \<and>
             truthy (getProp (getProp d ''pipeline'') (agentField k))
          then [getProp (getProp (getProp d ''pipeline'') (agentField k)) ''status'']
          else [])"

definition reports :: "agent \<Rightarrow> (nat \<Rightarrow> fetch_result) \<Rightarrow> nat \<Rightarrow> nat \<Rightarrow> jsval list" where
  "reports k fetch a n = concat (map (\<lambda>i. reported k (fetch i)) [a..<a + n])"






definition completedJson :: fetch_result where
  \<open>completedJson =
     Response \<lparr>status_code = 200, raw = ''{"status":"completed"}'',
       parsed = Some (JObj [(''status'', JStr ''completed'')])\<rparr>\<close>

definition errorPage :: "nat \<Rightarrow> fetch_result" where
  "errorPage code = Response \<lparr>status_code = code, raw = ''Not Found'', parsed = None\<rparr>"





section \<open>Strings and paths\<close>

text \<open>\<^verbatim>\<open>s.split(c)\<close>: the pieces of \<open>s\<close> between the occurrences of \<open>c\<close>.\<close>

fun splitOn :: "char \<Rightarrow> string \<Rightarrow> string list" where
  "splitOn c [] = [[]]"
| "splitOn c (x # xs) =
     (if x = c then [] # splitOn c xs
      else (case splitOn c xs of [] \<Rightarrow> [[x]] | p # ps \<Rightarrow> (x # p) # ps))"

text \<open>\<^verbatim>\<open>toLowerCase\<close> and \<^verbatim>\<open>toUpperCase\<close> on the ASCII letters.\<close>

definition lowerChar :: "char \<Rightarrow> char" where
  "lowerChar c =
     (if 65 \<le> (of_char c :: nat) \<and> (of_char c :: nat) \<le> 90
      then char_of ((of_char c :: nat) + 32) else c)"

definition upperChar :: "char \<Rightarrow> char" where
  "upperChar c =
     (if 97 \<le> (of_char c :: nat) \<and> (of_char c :: nat) \<le> 122
      then char_of ((of_char c :: nat) - 32) else c)"

definition toLowerCase :: "string \<Rightarrow> string" where
  "toLowerCase s = map lowerChar s"

definition toUpperCase :: "string \<Rightarrow> string" where
  "toUpperCase s = map upperChar s"

text \<open>
  A string is a list of code units below 256. Of these, \<^verbatim>\<open>trim\<close> strips the space,
  the controls from tab to carriage return, and the no-break space.
\<close>

definition isSpace :: "char \<Rightarrow> bool" where
  "isSpace c = ((of_char c :: nat) = 32 \<or> (9 \<le> (of_char c :: nat) \<and> (of_char c :: nat) \<le> 13)
                \<or> (of_char c :: nat) = 160)"

definition trim :: "string \<Rightarrow> string" where
  "trim s = rev (dropWhile isSpace (rev (dropWhile isSpace s)))"

text \<open>
  \<^verbatim>\<open>path.resolve(process.cwd(), p)\<close> on POSIX. The current directory is absolute and
  normalised; an absolute \<open>p\<close> replaces it, a relative one is appended. Then empty and
  \<^verbatim>\<open>.\<close> segments are dropped and each \<^verbatim>\<open>..\<close> removes the segment before it, if any.
\<close>

fun normalizeSegments :: "path \<Rightarrow> string list \<Rightarrow> path" where
  "normalizeSegments acc [] = acc"
| "normalizeSegments acc (s # ss) =
     (if s = [] \<or> s = ''.'' then normalizeSegments acc ss
      else if s = ''..'' then normalizeSegments (butlast acc) ss
      else normalizeSegments (acc @ [s]) ss)"

definition isAbsolute :: "string \<Rightarrow> bool" where
  "isAbsolute p = (case p of [] \<Rightarrow> False | c # cs \<Rightarrow> c = CHR ''/'')"

definition resolvePath :: "path \<Rightarrow> string \<Rightarrow> path" where
  "resolvePath cwd p =
     (if isAbsolute p then normalizeSegments [] (splitOn CHR ''/'' p)
      else normalizeSegments cwd (splitOn CHR ''/'' p))"

text \<open>\<^verbatim>\<open>path.dirname\<close> of a resolved path.\<close>

definition dirname :: "path \<Rightarrow> path" where
  "dirname p = butlast p"

section \<open>The file system\<close>

text \<open>
  The working tree and what surrounds it: each existing path is a file or a directory.
  The three calls of \<^verbatim>\<open>fs/promises\<close> the action makes fail for the reasons that
  depend on what exists at the path; permissions and device errors are not part of the
  model.
\<close>

datatype node = File content | Dir

type_synonym filesystem = "path \<Rightarrow> node option"

fun isFile :: "node option \<Rightarrow> bool" where
  "isFile (Some (File c)) = True"
| "isFile n = False"

text \<open>
  A regular file standing where a directory of the path should be: every call on such
  a path fails with \<^verbatim>\<open>ENOTDIR\<close>.
\<close>

definition fileAbove :: "filesystem \<Rightarrow> path \<Rightarrow> bool" where
  "fileAbove fs p = list_ex (\<lambda>q. isFile (fs q)) (butlast (prefixes p))"

text \<open>\<^verbatim>\<open>fs.mkdir(dir, { recursive: true })\<close>.\<close>

definition fsMkdir :: "path \<Rightarrow> filesystem \<Rightarrow> error + filesystem" where
  "fsMkdir dir fs =
     (if fileAbove fs dir then Inl (FsFailed ''ENOTDIR'' dir)
      else if isFile (fs dir) then Inl (FsFailed ''EEXIST'' dir)
      else Inr (\<lambda>q. if prefix q dir then Some Dir else fs q))"

text \<open>\<^verbatim>\<open>fs.writeFile(p, data)\<close>, as far as it depends on the path.\<close>

definition fsWriteFile :: "path \<Rightarrow> content \<Rightarrow> filesystem \<Rightarrow> error + filesystem" where
  "fsWriteFile p data fs =
     (if fileAbove fs p then Inl (FsFailed ''ENOTDIR'' p)
      else if fs p = Some Dir then Inl (FsFailed ''EISDIR'' p)
      else if fs (butlast p) \<noteq> Some Dir then Inl (FsFailed ''ENOENT'' p)
      else Inr (fs(p := Some (File data))))"

text \<open>
  \<^verbatim>\<open>fs.rm(p, { force, recursive })\<close>. With \<open>force\<close> a path at which nothing exists is
  forgiven (\<^verbatim>\<open>ENOENT\<close>), and that alone: a regular file among the ancestors of the
  path still fails with \<^verbatim>\<open>ENOTDIR\<close>. A directory is an error unless \<open>recursive\<close>;
  otherwise the path goes with all below it.
\<close>

definition fsRm :: "path \<Rightarrow> bool \<Rightarrow> bool \<Rightarrow> filesystem \<Rightarrow> error + filesystem" where
  "fsRm p force recursive fs =
     (if fileAbove fs p then Inl (FsFailed ''ENOTDIR'' p)
      else
        (case fs p of
           None \<Rightarrow> if force then Inr fs else Inl (FsFailed ''ENOENT'' p)
         | Some Dir \<Rightarrow>
             if recursive then Inr (\<lambda>q. if prefix p q then None else fs q)
             else Inl (FsFailed ''ERR_FS_EISDIR'' p)
         | Some (File c) \<Rightarrow> Inr (\<lambda>q. if prefix p q then None else fs q)))"

section \<open>The environment of a run\<close>

text \<open>How a spawned command ends.\<close>

datatype cmd_result = Exited nat | Signalled | SpawnFailed

text \<open>
  Everything a run reads from outside: \<open>vars\<close> is \<^verbatim>\<open>process.env\<close>, \<open>cwd\<close> is
  \<^verbatim>\<open>process.cwd()\<close>, \<open>readFile\<close> gives a file's text with what \<^verbatim>\<open>JSON.parse\<close> makes
  of it (\<open>None\<close> when the read fails, an inner \<open>None\<close> when the parse throws),
  \<open>validBase b\<close> says whether \<^verbatim>\<open>new URL('/agent/run', b)\<close> succeeds,
  \<open>hasOrigin u\<close> whether the origin of the endpoint \<open>u\<close> is one the status URL can be
  built on (\<^verbatim>\<open>new URL('/agent/status/...', origin)\<close> throws for the origin
  \<^verbatim>\<open>null\<close> of a URL that is not hierarchical), \<open>base64\<close> is
  \<^verbatim>\<open>Buffer.from(s, 'base64')\<close> for a string, \<open>bufferFrom\<close> is \<^verbatim>\<open>Buffer.from(v, ...)\<close>
  for a value that is not a string (\<open>None\<close> when it throws), \<open>agentFetch\<close> and
  \<open>statusFetch\<close> are what the invocation and the status request of each attempt meet,
  \<open>git\<close> is how each git command ends, \<open>github\<close> what each request to the repository
  host meets, and \<open>workTree\<close> the file system when the plan's files are applied.
\<close>

record env =
  vars :: "string \<Rightarrow> string option"
  cwd :: path
  readFile :: "path \<Rightarrow> (string \<times> jsval option) option"
  validBase :: "string \<Rightarrow> bool"
  hasOrigin :: "endpoint \<Rightarrow> bool"
  base64 :: "string \<Rightarrow> string"
  bufferFrom :: "jsval \<Rightarrow> string option"
  agentFetch :: fetch_result
  statusFetch :: "nat \<Rightarrow> fetch_result"
  git :: "jsval list \<Rightarrow> cmd_result"
  github :: "gh_request \<Rightarrow> fetch_result"
  workTree :: filesystem

text \<open>Sequencing: an error ends the computation, as a thrown exception does.\<close>

definition andThen :: "'a outcome \<Rightarrow> ('a \<Rightarrow> 'b outcome) \<Rightarrow> 'b outcome" where
  "andThen m f = (case snd m of Inl e \<Rightarrow> (fst m, Inl e) | Inr a \<Rightarrow> emit (fst m) (f a))"

definition ret :: "'a \<Rightarrow> 'a outcome" where
  "ret a = ([], Inr a)"

definition throw :: "error \<Rightarrow> 'a outcome" where
  "throw e = ([], Inl e)"

definition doing :: "event \<Rightarrow> (error + 'a) \<Rightarrow> 'a outcome" where
  "doing e r = ([e], r)"

text \<open>\<^verbatim>\<open>process.env.X || ''\<close> and a variable as a value (\<^verbatim>\<open>undefined\<close> when unset).\<close>

definition envString :: "env \<Rightarrow> string \<Rightarrow> string" where
  "envString e k = (case vars e k of None \<Rightarrow> [] | Some v \<Rightarrow> v)"

definition envValue :: "env \<Rightarrow> string \<Rightarrow> jsval" where
  "envValue e k = (case vars e k of None \<Rightarrow> JUndefined | Some v \<Rightarrow> JStr v)"

section \<open>GitHub Actions helpers\<close>

definition replaceSpace :: "char \<Rightarrow> char" where
  "replaceSpace c = (if c = CHR '' '' then CHR ''_'' else c)"

definition formatInputKey :: "string \<Rightarrow> string" where
  "formatInputKey n = ''INPUT_'' @ toUpperCase (map replaceSpace n)"

definition getInput :: "env \<Rightarrow> string \<Rightarrow> bool \<Rightarrow> error + string" where
  "getInput e n required =
     (if trim (envString e (formatInputKey n)) = []
      then (if required then Inl (InputRequired n) else Inr [])
      else Inr (trim (envString e (formatInputKey n))))"

definition logPipelineStart :: "event list" where
  "logPipelineStart =
     [Notice HeaderRule, Notice HeaderTitle, Notice HeaderRule, Notice Blank]
     @ logAgentStatus Ticket (JStr ''completed'') (JStr ''Ticket requirements analyzed'')
         JUndefined JUndefined"

text \<open>
  \<^verbatim>\<open>logPipelineComplete(prNumber, prUrl)\<close>; the URL is given by its repository,
  \<open>None\<close> for \<^verbatim>\<open>null\<close>.
\<close>

definition logPipelineComplete :: "jsval \<Rightarrow> repo option \<Rightarrow> event list" where
  "logPipelineComplete number url =
     [Notice Blank, Notice HeaderRule]
     @ (if truthy number
        then Notice (PrCreated number)
             # (case url of None \<Rightarrow> []
                | Some r \<Rightarrow> [Notice (PrLink (owner r) (name r) number)])
        else [Notice PipelineCompleted])
     @ [Notice HeaderRule]"

section \<open>JSON and repository helpers\<close>

text \<open>\<^verbatim>\<open>typeof v === 'object'\<close> for a value that is not \<^verbatim>\<open>null\<close>.\<close>

fun isObject :: "jsval \<Rightarrow> bool" where
  "isObject (JObj kvs) = True"
| "isObject (JArr xs) = True"
| "isObject v = False"

text \<open>
  \<^verbatim>\<open>parseRepository\<close>. A truthy argument that is not a string has no \<^verbatim>\<open>split\<close>, and
  the call throws.
\<close>

definition parseRepository :: "jsval \<Rightarrow> error + repo option" where
  "parseRepository repoString =
     (if \<not> truthy repoString then Inr None
      else (case repoString of
              JStr s \<Rightarrow>
                (case splitOn CHR ''/'' s of
                   o1 # n1 # rest \<Rightarrow>
                     if o1 = [] \<or> n1 = [] then Inr None else Inr (Some \<lparr>owner = o1, name = n1\<rparr>)
                 | short \<Rightarrow> Inr None)
            | other \<Rightarrow> Inl TypeError))"

text \<open>The six names under which a payload may carry the endpoint, in the order tried.\<close>

definition endpointAliases :: "string list" where
  "endpointAliases =
     [''agentUrl'', ''agent_url'', ''agent_endpoint'', ''agentEndpoint'', ''url'', ''endpoint'']"

definition resolveAgentUrl :: "env \<Rightarrow> jsval \<Rightarrow> string \<Rightarrow> error + endpoint option" where
  "resolveAgentUrl e payload inputBaseUrl =
     (case (if truthy payload \<and> isObject payload
            then filter truthy (map (getProp payload) endpointAliases) else []) of
        c # cs \<Rightarrow> Inr (Some (FromPayload c))
      | [] \<Rightarrow>
          (let base = (if inputBaseUrl \<noteq> [] then inputBaseUrl
                       else envString e ''PIXELFRAME_BASE_URL'')
           in if base = [] then Inr None
              else if validBase e base then Inr (Some (FromBase base))
              else Inl (InvalidBaseUrl base)))"

section \<open>The agent invoker\<close>

text \<open>
  \<^verbatim>\<open>callAgent\<close>: an empty body leaves \<^verbatim>\<open>data\<close> undefined, an unparsable one is
  wrapped as \<^verbatim>\<open>{ raw }\<close>; a response that is not 2xx is an error; a parsed
  response that is processing and has a run id is polled to its end, unless the status
  URL cannot be built on the endpoint's origin, which throws before the first poll.
\<close>

definition callAgent :: "env \<Rightarrow> endpoint \<Rightarrow> jsval outcome" where
  "callAgent e agentUrl =
     emit [Debug CallingAgent, HttpPostAgent agentUrl]
       (case agentFetch e of
          Rejected msg \<Rightarrow> throw (FetchFailed msg)
        | Response r \<Rightarrow>
            andThen
              (if raw r = [] then ret JUndefined
               else (case parsed r of
                       Some d \<Rightarrow> ret d
                     | None \<Rightarrow> ([Warning AgentNotJson], Inr (JObj [(''raw'', JStr (raw r))]))))
              (\<lambda>data.
                 if \<not> ok r then
                   throw (ApiRequestFailed (status_code r)
                            (if raw r = [] then ''No response body'' else take 500 (raw r)))
                 else if truthy data \<and> strict_eq (getProp data ''status'') (JStr ''processing'')
                         \<and> truthy (getProp data ''runId'')
                 then (if hasOrigin e agentUrl
                       then pollAgentStatus (statusFetch e) (getProp data ''runId'')
                       else throw TypeError)
                 else ret data))"

section \<open>File operations\<close>

record fileChange =
  fc_path :: jsval
  fc_contents :: jsval
  fc_encoding :: jsval
  fc_mode :: jsval

fun normalizeEntry :: "jsval \<Rightarrow> fileChange option" where
  "normalizeEntry (JObj kvs) =
     (if \<not> truthy (getProp (JObj kvs) ''path'') then None
      else Some \<lparr>fc_path = getProp (JObj kvs) ''path'',
                 fc_contents = js_coalesce (js_coalesce (getProp (JObj kvs) ''contents'')
                                 (getProp (JObj kvs) ''content'')) (JStr []),
                 fc_encoding = js_or (getProp (JObj kvs) ''encoding'')
                                 (js_or (getProp (JObj kvs) ''contentEncoding'') (JStr ''utf-8'')),
                 fc_mode = js_or (getProp (JObj kvs) ''mode'') (JStr ''text'')\<rparr>)"
| "normalizeEntry v = None"

definition normalizeFileChanges :: "jsval \<Rightarrow> fileChange list" where
  "normalizeFileChanges files =
     (case files of JArr entries \<Rightarrow> List.map_filter normalizeEntry entries | other \<Rightarrow> [])"

text \<open>
  \<^verbatim>\<open>v.toString()\<close> and the string conversion of the elements of an array never
  throw, except for an object whose own properties include \<^verbatim>\<open>toString\<close>: a value
  from JSON is no function.
\<close>

fun stringable :: "jsval \<Rightarrow> bool" where
  "stringable (JObj kvs) = (map_of kvs ''toString'' = None)"
| "stringable (JArr xs) = list_all stringable xs"
| "stringable v = True"

text \<open>
  What \<^verbatim>\<open>writeFileChange\<close> hands to \<^verbatim>\<open>fs.writeFile\<close>. With base64 it is the
  decoded buffer, or the buffer's text in text mode. Otherwise, in binary mode, a string
  goes as it is and an array as the chunks it iterates over, while any other value is
  refused; in text mode a string goes as it is and any other value as the result of
  \<^verbatim>\<open>toString('utf-8')\<close>, which for a number is a radix out of range.
\<close>

definition fileData :: "env \<Rightarrow> fileChange \<Rightarrow> error + content" where
  "fileData e change =
     (if strict_eq (fc_encoding change) (JStr ''base64'') then
        (case (case fc_contents change of JStr s \<Rightarrow> Some (base64 e s)
               | other \<Rightarrow> bufferFrom e other) of
           None \<Rightarrow> Inl TypeError
         | Some b \<Rightarrow>
             Inr (if strict_eq (fc_mode change) (JStr ''binary'') then RawBuffer b
                  else Utf8OfBuffer b))
      else if strict_eq (fc_mode change) (JStr ''binary'') then
        (case fc_contents change of
           JStr s \<Rightarrow> Inr (Raw (JStr s))
         | JArr xs \<Rightarrow> Inr (Chunks xs)
         | other \<Rightarrow> Inl TypeError)
      else
        (case fc_contents change of
           JStr s \<Rightarrow> Inr (Utf8 (JStr s))
         | JNum n \<Rightarrow> Inl RangeError
         | other \<Rightarrow>
             if nullish other \<or> \<not> stringable other then Inl TypeError else Inr (Utf8 other)))"

text \<open>
  Each chunk of an array is turned into a buffer as it is written, after the file was
  opened: a string always can be, another value when \<^verbatim>\<open>Buffer.from\<close> takes it.
\<close>

fun chunksOk :: "env \<Rightarrow> content \<Rightarrow> bool" where
  "chunksOk e (Chunks xs) =
     list_all (\<lambda>v. case v of JStr s \<Rightarrow> True | other \<Rightarrow> bufferFrom e other \<noteq> None) xs"
| "chunksOk e data = True"

text \<open>
  \<^verbatim>\<open>writeFileChange\<close>. The path is joined to the current directory by
  \<^verbatim>\<open>path.resolve\<close>, which throws for a path that is not a string, and used as it
  comes out.
\<close>

definition writeFileChange :: "env \<Rightarrow> fileChange \<Rightarrow> filesystem \<Rightarrow> filesystem outcome" where
  "writeFileChange e change fs =
     (case fc_path change of
        JStr p \<Rightarrow>
          andThen (doing (Mkdir (dirname (resolvePath (cwd e) p)))
                     (fsMkdir (dirname (resolvePath (cwd e) p)) fs))
            (\<lambda>fs1. case fileData e change of
                      Inl err \<Rightarrow> throw err
                    | Inr data \<Rightarrow>
                        doing (WriteFile (resolvePath (cwd e) p) data)
                          (case fsWriteFile (resolvePath (cwd e) p) data fs1 of
                             Inl err \<Rightarrow> Inl err
                           | Inr fs2 \<Rightarrow> if chunksOk e data then Inr fs2 else Inl TypeError))
      | other \<Rightarrow> throw TypeError)"

definition removeFile :: "env \<Rightarrow> string \<Rightarrow> filesystem \<Rightarrow> filesystem outcome" where
  "removeFile e pathToRemove fs =
     doing (Remove (resolvePath (cwd e) pathToRemove))
       (fsRm (resolvePath (cwd e) pathToRemove) True True fs)"

text \<open>The two loops of \<^verbatim>\<open>applyFileOperations\<close>.\<close>

fun writeAll :: "env \<Rightarrow> fileChange list \<Rightarrow> filesystem \<Rightarrow> filesystem outcome" where
  "writeAll e [] fs = ret fs"
| "writeAll e (change # rest) fs =
     andThen (writeFileChange e change fs)
       (\<lambda>fs1. emit [Debug (WroteFile (fc_path change))] (writeAll e rest fs1))"

fun removeAll :: "env \<Rightarrow> jsval list \<Rightarrow> filesystem \<Rightarrow> filesystem outcome" where
  "removeAll e [] fs = ret fs"
| "removeAll e (item # rest) fs =
     (case item of
        JStr s \<Rightarrow>
          andThen (removeFile e s fs)
            (\<lambda>fs1. emit [Debug (RemovedFile item)] (removeAll e rest fs1))
      | other \<Rightarrow>
          (case (if truthy item then getProp item ''path'' else JUndefined) of
             JStr s \<Rightarrow>
               andThen (removeFile e s fs)
                 (\<lambda>fs1. emit [Debug (RemovedFile (JStr s))] (removeAll e rest fs1))
           | nopath \<Rightarrow> removeAll e rest fs))"

definition applyFileOperations :: "env \<Rightarrow> jsval \<Rightarrow> filesystem \<Rightarrow> filesystem outcome" where
  "applyFileOperations e plan fs =
     (let updates = normalizeFileChanges
                      (js_or (getProp plan ''files'') (js_or (getProp plan ''updates'') (JArr [])))
      in emit (if length updates > 0 then [Notice (ApplyingChanges (length updates))] else [])
           (andThen (writeAll e updates fs)
              (\<lambda>fs1. removeAll e
                        (case getProp plan ''deletions'' of JArr items \<Rightarrow> items | other \<Rightarrow> [])
                        fs1)))"

section \<open>Git operations\<close>

text \<open>\<^verbatim>\<open>runCommand('git', args)\<close>: anything but exit code 0 rejects.\<close>

definition runCommand :: "env \<Rightarrow> jsval list \<Rightarrow> unit outcome" where
  "runCommand e args =
     doing (RunGit args)
       (case git e args of
          Exited code \<Rightarrow> if code = 0 then Inr () else Inl (CommandFailed args)
        | Signalled \<Rightarrow> Inl (CommandFailed args)
        | SpawnFailed \<Rightarrow> Inl (CommandFailed args))"

text \<open>
  \<^verbatim>\<open>ensureGitUserConfigured(commit.author)\<close>: the default \<^verbatim>\<open>{}\<close> stands in for an
  undefined author only, so a \<^verbatim>\<open>null\<close> author throws.
\<close>

definition ensureGitUserConfigured :: "env \<Rightarrow> jsval \<Rightarrow> unit outcome" where
  "ensureGitUserConfigured e author =
     (if author = JNull then throw TypeError
      else
        andThen (runCommand e [JStr ''config'', JStr ''user.name'',
                   js_or (getProp author ''name'')
                     (js_or (envValue e ''GIT_COMMITTER_NAME'') (JStr ''pixelframe-agent''))])
          (\<lambda>u. runCommand e [JStr ''config'', JStr ''user.email'',
                   js_or (getProp author ''email'')
                     (js_or (envValue e ''GIT_COMMITTER_EMAIL'') (JStr ''pixelframe@git.local''))]))"

definition baseRefOf :: "env \<Rightarrow> jsval \<Rightarrow> jsval" where
  "baseRefOf e baseBranch =
     js_or baseBranch
       (js_or (envValue e ''GITHUB_BASE_REF'')
          (js_or (envValue e ''GITHUB_REF_NAME'') (JStr ''main'')))"

definition prepareBranch :: "env \<Rightarrow> jsval \<Rightarrow> jsval \<Rightarrow> unit outcome" where
  "prepareBranch e branchName baseBranch =
     andThen (runCommand e [JStr ''fetch'', JStr ''--prune'', JStr ''--tags''])
       (\<lambda>u. andThen (runCommand e [JStr ''checkout'', baseRefOf e baseBranch])
          (\<lambda>u. andThen (runCommand e [JStr ''pull'', JStr ''--ff-only'', JStr ''origin'',
                                       baseRefOf e baseBranch])
             (\<lambda>u. runCommand e [JStr ''checkout'', JStr ''-B'', branchName,
                                 baseRefOf e baseBranch])))"

definition diffArgs :: "jsval list" where
  "diffArgs = [JStr ''diff'', JStr ''--cached'', JStr ''--quiet'']"

text \<open>
  \<^verbatim>\<open>stageAndCommit\<close>: the quiet diff succeeding means nothing is staged; its failure,
  whatever the reason, leads to the commit.
\<close>

definition stageAndCommit :: "env \<Rightarrow> jsval \<Rightarrow> bool outcome" where
  "stageAndCommit e message =
     andThen (runCommand e [JStr ''add'', JStr ''--all''])
       (\<lambda>u. emit (fst (runCommand e diffArgs))
          (case snd (runCommand e diffArgs) of
             Inr u \<Rightarrow> ([Notice NoStagedChanges], Inr False)
           | Inl err \<Rightarrow>
               andThen (runCommand e [JStr ''commit'', JStr ''-m'', message])
                 (\<lambda>u. ret True)))"

definition pushBranch :: "env \<Rightarrow> jsval \<Rightarrow> bool \<Rightarrow> unit outcome" where
  "pushBranch e branchName force =
     runCommand e (if force then [JStr ''push'', JStr ''--force-with-lease'', JStr ''origin'',
                                   branchName]
                   else [JStr ''push'', JStr ''origin'', branchName])"

section \<open>GitHub API operations\<close>

definition githubRequest :: "env \<Rightarrow> gh_request \<Rightarrow> jsval outcome" where
  "githubRequest e req =
     emit [GitHubCall req]
       (case github e req of
          Rejected msg \<Rightarrow> throw (FetchFailed msg)
        | Response r \<Rightarrow>
            andThen
              (if raw r = [] then ret JNull
               else (case parsed r of
                       Some d \<Rightarrow> ret d
                     | None \<Rightarrow> ([Warning GitHubNotJson], Inr (JObj [(''raw'', JStr (raw r))]))))
              (\<lambda>data.
                 if \<not> ok r then
                   throw (GitHubRequestFailed (status_code r)
                            (if raw r = [] then ''No response body'' else take 400 (raw r)))
                 else ret data))"

text \<open>
  \<^verbatim>\<open>createOrUpdatePullRequest\<close>. The title is the plan's, or else the default built
  from the branch name.
\<close>

definition createOrUpdatePullRequest ::
    "env \<Rightarrow> repo option \<Rightarrow> jsval \<Rightarrow> jsval \<Rightarrow> jsval \<Rightarrow> string \<Rightarrow> jsval outcome" where
  "createOrUpdatePullRequest e rp branchName baseBranch pullRequestSpec token =
     (case rp of
        None \<Rightarrow> ret JNull
      | Some r \<Rightarrow>
          if \<not> truthy branchName \<or> token = [] then ret JNull
          else if truthy (js_or (getProp pullRequestSpec ''number'')
                            (getProp pullRequestSpec ''prNumber''))
          then
            emit [Notice (UpdatingPull (js_or (getProp pullRequestSpec ''number'')
                                          (getProp pullRequestSpec ''prNumber'')))]
              (andThen
                 (githubRequest e
                    (UpdatePull r
                       (js_or (getProp pullRequestSpec ''number'')
                          (getProp pullRequestSpec ''prNumber''))
                       (if truthy (getProp pullRequestSpec ''title'')
                        then GivenTitle (getProp pullRequestSpec ''title'')
                        else DefaultTitle branchName)
                       (js_or (getProp pullRequestSpec ''body'') (JStr []))
                       (strict_eq (getProp pullRequestSpec ''draft'') (JBool True))))
                 (\<lambda>d. ret (js_or (getProp pullRequestSpec ''number'')
                               (getProp pullRequestSpec ''prNumber''))))
          else
            emit [Notice (CreatingPull branchName (js_or baseBranch (JStr ''main'')))]
              (andThen
                 (githubRequest e
                    (CreatePull r branchName (js_or baseBranch (JStr ''main''))
                       (if truthy (getProp pullRequestSpec ''title'')
                        then GivenTitle (getProp pullRequestSpec ''title'')
                        else DefaultTitle branchName)
                       (js_or (getProp pullRequestSpec ''body'') (JStr []))
                       (strict_eq (getProp pullRequestSpec ''draft'') (JBool True))))
                 (\<lambda>pr. ret (if truthy pr \<and> truthy (getProp pr ''number'')
                              then getProp pr ''number'' else JNull))))"

text \<open>\<^verbatim>\<open>v.length === 0\<close> for the list of users or teams.\<close>

fun lengthIsZero :: "jsval \<Rightarrow> bool" where
  "lengthIsZero (JArr xs) = (xs = [])"
| "lengthIsZero (JStr s) = (s = [])"
| "lengthIsZero (JObj kvs) = strict_eq (getProp (JObj kvs) ''length'') (JNum 0)"
| "lengthIsZero v = False"

fun isArray :: "jsval \<Rightarrow> bool" where
  "isArray (JArr xs) = True"
| "isArray v = False"

definition requestReviewsIfNeeded ::
    "env \<Rightarrow> repo option \<Rightarrow> jsval \<Rightarrow> jsval \<Rightarrow> string \<Rightarrow> unit outcome" where
  "requestReviewsIfNeeded e rp pullRequestNumber reviewers token =
     (case rp of
        None \<Rightarrow> ret ()
      | Some r \<Rightarrow>
          if \<not> truthy pullRequestNumber \<or> token = [] then ret ()
          else
            (let users = (if \<not> nullish reviewers \<and> isArray (getProp reviewers ''users'')
                          then getProp reviewers ''users'' else js_or reviewers (JArr []));
                 teams = (if \<not> nullish reviewers \<and> isArray (getProp reviewers ''teams'')
                          then getProp reviewers ''teams'' else JArr [])
             in if lengthIsZero users \<and> lengthIsZero teams then ret ()
                else andThen (githubRequest e (RequestReviewers r pullRequestNumber users teams))
                       (\<lambda>d. ret ())))"

definition mergeMethods :: "string list" where
  "mergeMethods = [''merge'', ''squash'', ''rebase'']"

text \<open>
  \<^verbatim>\<open>maybeMergePullRequest\<close>. A truthy strategy that is not a string has no
  \<^verbatim>\<open>toLowerCase\<close>, and the call throws.
\<close>

definition maybeMergePullRequest ::
    "env \<Rightarrow> repo option \<Rightarrow> jsval \<Rightarrow> jsval \<Rightarrow> string \<Rightarrow> unit outcome" where
  "maybeMergePullRequest e rp pullRequestNumber mergeStrategy token =
     (case rp of
        None \<Rightarrow> ret ()
      | Some r \<Rightarrow>
          if \<not> truthy pullRequestNumber \<or> token = [] \<or> \<not> truthy mergeStrategy then ret ()
          else (case mergeStrategy of
                  JStr s \<Rightarrow>
                    if toLowerCase s \<notin> set mergeMethods then
                      ([Warning (UnsupportedMergeStrategy mergeStrategy)], Inr ())
                    else
                      andThen (githubRequest e (MergePull r pullRequestNumber (toLowerCase s)))
                        (\<lambda>d. ([Notice (Merged pullRequestNumber (toLowerCase s))], Inr ()))
                | other \<Rightarrow> throw TypeError))"

section \<open>Repository plan application\<close>

text \<open>
  What \<^verbatim>\<open>maybeApplyRepositoryPlan\<close> returns: the number, and the repository whose
  \<^verbatim>\<open>/pull/${prNumber}\<close> page is the URL (\<open>None\<close> for a \<^verbatim>\<open>null\<close> URL).
\<close>

record prResult =
  prNumber :: jsval
  prUrl :: "repo option"

definition noPr :: prResult where
  "noPr = \<lparr>prNumber = JNull, prUrl = None\<rparr>"

text \<open>\<^verbatim>\<open>plan.pullRequest || {}\<close>.\<close>

definition prSpecOf :: "jsval \<Rightarrow> jsval" where
  "prSpecOf plan = js_or (getProp plan ''pullRequest'') (JObj [])"

text \<open>
  The end of \<^verbatim>\<open>maybeApplyRepositoryPlan\<close>, from the point where
  \<^verbatim>\<open>createOrUpdatePullRequest\<close> has returned the number: the URL, the reviewers
  (\<open>reviewStep\<close>), the merge (\<open>mergeStep\<close>) and the result.
\<close>

definition reviewStep :: "env \<Rightarrow> jsval \<Rightarrow> repo option \<Rightarrow> string \<Rightarrow> jsval \<Rightarrow> unit outcome" where
  "reviewStep e plan rp token number =
     (if truthy number \<and> truthy (getProp (prSpecOf plan) ''reviewers'')
      then requestReviewsIfNeeded e rp number (getProp (prSpecOf plan) ''reviewers'') token
      else ret ())"

definition shouldMerge :: "jsval \<Rightarrow> bool" where
  "shouldMerge plan =
     (strict_eq (getProp (prSpecOf plan) ''merge'') (JBool True)
      \<or> strict_eq (getProp plan ''merge'') (JBool True))"

definition mergeStep ::
    "env \<Rightarrow> jsval \<Rightarrow> repo option \<Rightarrow> string \<Rightarrow> string \<Rightarrow> jsval \<Rightarrow> unit outcome" where
  "mergeStep e plan rp token mergeStrategy number =
     (if shouldMerge plan
      then maybeMergePullRequest e rp number
             (js_or (JStr mergeStrategy) (getProp (prSpecOf plan) ''mergeStrategy'')) token
      else ret ())"

definition finishPullRequest ::
    "env \<Rightarrow> jsval \<Rightarrow> repo option \<Rightarrow> string \<Rightarrow> string \<Rightarrow> jsval \<Rightarrow> prResult outcome" where
  "finishPullRequest e plan rp token mergeStrategy number =
     andThen (reviewStep e plan rp token number)
       (\<lambda>u. andThen (mergeStep e plan rp token mergeStrategy number)
          (\<lambda>u. ret \<lparr>prNumber = number, prUrl = (if truthy number then rp else None)\<rparr>))"

definition repositoryOf :: "env \<Rightarrow> jsval \<Rightarrow> jsval" where
  "repositoryOf e plan =
     js_or (if nullish (getProp plan ''repository'') then JUndefined
            else getProp (getProp plan ''repository'') ''name'')
       (envValue e ''GITHUB_REPOSITORY'')"

definition branchOf :: "jsval \<Rightarrow> jsval" where
  "branchOf plan =
     js_or (getProp (js_or (getProp plan ''commit'') (JObj [])) ''branch'')
       (js_or (getProp plan ''branch'') (getProp plan ''branchName''))"

definition baseOf :: "jsval \<Rightarrow> jsval" where
  "baseOf plan =
     js_or (getProp (js_or (getProp plan ''commit'') (JObj [])) ''base'') (getProp plan ''baseBranch'')"

definition maybeApplyRepositoryPlan :: "env \<Rightarrow> jsval \<Rightarrow> string \<Rightarrow> string \<Rightarrow> prResult outcome" where
  "maybeApplyRepositoryPlan e plan token mergeStrategy =
     (if \<not> truthy plan \<or> \<not> isObject plan then ret noPr
      else
        (case parseRepository (repositoryOf e plan) of
           Inl err \<Rightarrow> throw err
         | Inr rp \<Rightarrow>
             emit (if rp = None then [Warning NoRepository] else [])
               (if \<not> truthy (branchOf plan) then ([Notice NoBranch], Inr noPr)
                else if token = [] then ([Warning NoToken], Inr noPr)
                else
                  andThen (ensureGitUserConfigured e
                             (getProp (js_or (getProp plan ''commit'') (JObj [])) ''author''))
                    (\<lambda>u. andThen (prepareBranch e (branchOf plan) (baseOf plan))
                       (\<lambda>u. andThen (applyFileOperations e plan (workTree e))
                          (\<lambda>fs1. andThen
                             (stageAndCommit e
                                (js_or (getProp (js_or (getProp plan ''commit'') (JObj [])) ''message'')
                                   (js_or (getProp plan ''commitMessage'')
                                      (JStr ''PixelFrame agent updates''))))
                             (\<lambda>committed.
                                if \<not> committed then ([Notice NoChangesAfterPlan], Inr noPr)
                                else
                                  andThen
                                    (pushBranch e (branchOf plan)
                                       (strict_eq (getProp (js_or (getProp plan ''commit'') (JObj []))
                                                     ''force'') (JBool True)
                                        \<or> strict_eq (getProp plan ''force'') (JBool True)))
                                    (\<lambda>u. andThen
                                       (createOrUpdatePullRequest e rp (branchOf plan) (baseOf plan)
                                          (prSpecOf plan) token)
                                       (finishPullRequest e plan rp token mergeStrategy)))))))))"

section \<open>The orchestrator\<close>

text \<open>An input that is not required: \<^verbatim>\<open>getInput(name)\<close> never throws.\<close>

definition inputOf :: "env \<Rightarrow> string \<Rightarrow> string" where
  "inputOf e n = (case getInput e n False of Inl err \<Rightarrow> [] | Inr v \<Rightarrow> v)"

definition tokenOf :: "env \<Rightarrow> string" where
  "tokenOf e = (if inputOf e ''token'' \<noteq> [] then inputOf e ''token'' else envString e ''GITHUB_TOKEN'')"

text \<open>The outputs for the run id and the status, and those for the pull request.\<close>

definition agentOutputs :: "jsval \<Rightarrow> event list" where
  "agentOutputs agentResponse =
     (if truthy agentResponse \<and> isObject agentResponse then
        (if truthy (getProp agentResponse ''runId'')
         then [SetOutput RunId (getProp agentResponse ''runId'')] else [])
        @ (if truthy (getProp agentResponse ''status'')
           then [SetOutput Status (getProp agentResponse ''status'')] else [])
      else [])"

definition prOutputs :: "prResult \<Rightarrow> event list" where
  "prOutputs res =
     (if truthy (prNumber res) then [SetOutput PrNumber (prNumber res)] else [])
     @ (case prUrl res of None \<Rightarrow> [] | Some r \<Rightarrow> [SetOutput (PrUrl r) (prNumber res)])"

text \<open>\<^verbatim>\<open>agentResponse?.plan || agentResponse\<close>.\<close>

definition planOf :: "jsval \<Rightarrow> jsval" where
  "planOf agentResponse =
     js_or (if nullish agentResponse then JUndefined else getProp agentResponse ''plan'')
       agentResponse"

text \<open>The part of \<^verbatim>\<open>run\<close> after the agent has answered.\<close>

definition afterAgent :: "env \<Rightarrow> jsval \<Rightarrow> unit outcome" where
  "afterAgent e agentResponse =
     emit (agentOutputs agentResponse)
       (andThen
          (maybeApplyRepositoryPlan e (planOf agentResponse) (tokenOf e) (inputOf e ''merge-strategy''))
          (\<lambda>res. (prOutputs res
                   @ logPipelineComplete (prNumber res) (prUrl res),
                   Inr ())))"

text \<open>The part of \<^verbatim>\<open>run\<close> up to the resolved endpoint.\<close>

definition resolveRun :: "env \<Rightarrow> endpoint outcome" where
  "resolveRun e =
     (case getInput e ''payload-file'' True of
        Inl err \<Rightarrow> throw err
      | Inr payloadFile \<Rightarrow>
          emit [ReadFile (resolvePath (cwd e) payloadFile)]
            (case readFile e (resolvePath (cwd e) payloadFile) of
               None \<Rightarrow> throw (ReadFailed (resolvePath (cwd e) payloadFile))
             | Some (body, None) \<Rightarrow> throw (PayloadNotJson (resolvePath (cwd e) payloadFile))
             | Some (body, Some payload) \<Rightarrow>
                 (case resolveAgentUrl e payload (inputOf e ''pixelframe-base-url'') of
                    Inl err \<Rightarrow> throw err
                  | Inr None \<Rightarrow> throw UnresolvedEndpoint
                  | Inr (Some agentUrl) \<Rightarrow> ret agentUrl)))"

definition runBody :: "env \<Rightarrow> unit outcome" where
  "runBody e =
     andThen (resolveRun e)
       (\<lambda>agentUrl.
          emit ((if envString e ''PIXELFRAME_API_KEY'' = [] then [Warning NoApiKey] else [])
                @ logPipelineStart)
            (andThen (callAgent e agentUrl) (afterAgent e)))"

text \<open>\<^verbatim>\<open>run\<close>: the events and the exit code, 1 after \<^verbatim>\<open>setFailed\<close>.\<close>

definition run :: "env \<Rightarrow> event list \<times> nat" where
  "run e =
     (case snd (runBody e) of
        Inl err \<Rightarrow> (fst (runBody e) @ [SetFailed err], 1)
      | Inr u \<Rightarrow> (fst (runBody e), 0))"

section \<open>Observing the plan applier\<close>

text \<open>The paths a run writes to or removes, in order.\<close>

fun touched :: "event \<Rightarrow> path list" where
  "touched (WriteFile p d) = [p]"
| "touched (Remove p) = [p]"
| "touched ev = []"

definition targets :: "event list \<Rightarrow> path list" where
  "targets tr = concat (map touched tr)"

text \<open>
  A relative path whose \<^verbatim>\<open>..\<close> segments never climb above the directory it starts
  from: \<open>depth\<close> counts the named segments still open.
\<close>

fun staysInside :: "nat \<Rightarrow> string list \<Rightarrow> bool" where
  "staysInside depth [] = True"
| "staysInside depth (s # ss) =
     (if s = [] \<or> s = ''.'' then staysInside depth ss
      else if s = ''..'' then 0 < depth \<and> staysInside (depth - 1) ss
      else staysInside (depth + 1) ss)"

definition confined :: "string \<Rightarrow> bool" where
  "confined p = (\<not> isAbsolute p \<and> staysInside 0 (splitOn CHR ''/'' p))"

text \<open>The paths a plan names: those of its file changes and of its deletions.\<close>

fun deletionPath :: "jsval \<Rightarrow> jsval list" where
  "deletionPath (JStr s) = [JStr s]"
| "deletionPath item = (if truthy item then [getProp item ''path''] else [])"

definition planPaths :: "jsval \<Rightarrow> jsval list" where
  "planPaths plan =
     map fc_path (normalizeFileChanges
       (js_or (getProp plan ''files'') (js_or (getProp plan ''updates'') (JArr []))))
     @ concat (map deletionPath
         (case getProp plan ''deletions'' of JArr items \<Rightarrow> items | other \<Rightarrow> []))"


text \<open>Examples: a runner with an empty tree, and plans with and without escaping paths.\<close>

definition emptyTree :: filesystem where
  "emptyTree = (\<lambda>q. None)"

definition escEnv :: env where
  "escEnv = \<lparr>vars = (\<lambda>k. None), cwd = [''home'', ''runner'', ''work''],
     readFile = (\<lambda>p. None), validBase = (\<lambda>b. True), hasOrigin = (\<lambda>u. True),
     base64 = (\<lambda>s. s), bufferFrom = (\<lambda>v. None),
     agentFetch = Rejected [], statusFetch = (\<lambda>i. Rejected []),
     git = (\<lambda>args. Exited 0), github = (\<lambda>req. Rejected []), workTree = emptyTree\<rparr>"

definition escPlan :: jsval where
  "escPlan = JObj [(''files'', JArr [JObj [(''path'', JStr ''../outside.txt''),
                                          (''contents'', JStr ''hi'')]]),
                   (''deletions'', JArr [JStr ''/etc/hosts''])]"


definition safePlan :: jsval where
  "safePlan = JObj [(''files'', JArr [JObj [(''path'', JStr ''src/a.txt''),
                                           (''contents'', JStr ''hi'')]]),
                    (''deletions'', JArr [JStr ''old/../tmp.txt''])]"

text \<open>The paths among them that are strings.\<close>

definition stringPaths :: "jsval \<Rightarrow> string list" where
  "stringPaths plan = concat (map (\<lambda>v. case v of JStr p \<Rightarrow> [p] | other \<Rightarrow> []) (planPaths plan))"



section \<open>Observing the orchestrator\<close>

text \<open>Kinds of events: calls that leave the process, outputs, repository operations.\<close>

fun isExternalCall :: "event \<Rightarrow> bool" where
  "isExternalCall (HttpPostAgent u) = True"
| "isExternalCall (HttpGetStatus r) = True"
| "isExternalCall (GitHubCall q) = True"
| "isExternalCall (RunGit args) = True"
| "isExternalCall ev = False"

fun isOutput :: "event \<Rightarrow> bool" where
  "isOutput (SetOutput n v) = True"
| "isOutput ev = False"

fun isRepositoryOp :: "event \<Rightarrow> bool" where
  "isRepositoryOp (RunGit args) = True"
| "isRepositoryOp (GitHubCall q) = True"
| "isRepositoryOp (Mkdir p) = True"
| "isRepositoryOp (WriteFile p d) = True"
| "isRepositoryOp (Remove p) = True"
| "isRepositoryOp ev = False"

text \<open>
  A payload carries an endpoint when it is an object with a truthy value under one of
  the six aliases; the first such value, in the order of the aliases, is its endpoint.
\<close>

definition carriesEndpoint :: "jsval \<Rightarrow> bool" where
  "carriesEndpoint payload =
     (truthy payload \<and> isObject payload \<and>
      list_ex (\<lambda>k. truthy (getProp payload k)) endpointAliases)"

definition firstEndpoint :: "jsval \<Rightarrow> jsval" where
  "firstEndpoint payload = hd (filter truthy (map (getProp payload) endpointAliases))"

text \<open>Example runs: a payload file, and an agent that answers 200 with an empty body.\<close>

definition emptyReply :: fetch_result where
  "emptyReply = Response \<lparr>status_code = 200, raw = [], parsed = None\<rparr>"

definition urlPayload :: jsval where
  "urlPayload = JObj [(''agentUrl'', JStr ''https://x/agent/run'')]"

definition urlEnv :: env where
  \<open>urlEnv =
     escEnv\<lparr>vars := (\<lambda>k. if k = ''INPUT_PAYLOAD-FILE'' then Some ''payload.json'' else None),
             readFile := (\<lambda>p. Some (''{"agentUrl":"https://x/agent/run"}'', Some urlPayload))\<rparr>\<close>

definition bareEnv :: env where
  \<open>bareEnv =
     escEnv\<lparr>vars := (\<lambda>k. if k = ''INPUT_PAYLOAD-FILE'' then Some ''payload.json'' else None),
             readFile := (\<lambda>p. Some (''{}'', Some (JObj [])))\<rparr>\<close>

text \<open>
  The events that publish a change: a commit or a push, a request to the repository
  host, an output for the pull request. An event is quiet when it is none of these.
\<close>

fun gitVerb :: "jsval list \<Rightarrow> string" where
  "gitVerb (JStr c # args) = c"
| "gitVerb args = []"

fun isCommitPushOrPr :: "event \<Rightarrow> bool" where
  "isCommitPushOrPr (RunGit args) = (gitVerb args = ''commit'' \<or> gitVerb args = ''push'')"
| "isCommitPushOrPr (GitHubCall q) = True"
| "isCommitPushOrPr ev = False"

fun isPrOutput :: "event \<Rightarrow> bool" where
  "isPrOutput (SetOutput PrNumber v) = True"
| "isPrOutput (SetOutput (PrUrl r) v) = True"
| "isPrOutput ev = False"

definition quiet :: "event \<Rightarrow> bool" where
  "quiet ev = (\<not> isCommitPushOrPr ev \<and> \<not> isPrOutput ev)"

text \<open>
  \<open>allEvents Q m\<close>: every event of the computation satisfies \<open>Q\<close>. \<open>stops m\<close>: the
  computation is quiet and, if it returns, returns no pull request.
\<close>

definition allEvents :: "(event \<Rightarrow> bool) \<Rightarrow> 'a outcome \<Rightarrow> bool" where
  "allEvents Q m = list_all Q (fst m)"

definition stops :: "prResult outcome \<Rightarrow> bool" where
  "stops m = (allEvents quiet m \<and> (case snd m of Inl err \<Rightarrow> True | Inr res \<Rightarrow> res = noPr))"

text \<open>The events of polling: the timer, the status request and the lines printed.\<close>

fun isPollEvent :: "event \<Rightarrow> bool" where
  "isPollEvent (Sleep n) = True"
| "isPollEvent (HttpGetStatus r) = True"
| "isPollEvent (Notice l) = True"
| "isPollEvent (Warning l) = True"
| "isPollEvent (Debug l) = True"
| "isPollEvent ev = False"

text \<open>
  Example run: the agent answers at once with a plan for branch \<^verbatim>\<open>b1\<close>, a token and
  a repository are set, and every git command exits with code 0.
\<close>

definition stagingEnv :: env where
  \<open>stagingEnv =
     urlEnv\<lparr>
        vars := (\<lambda>k. if k = ''INPUT_PAYLOAD-FILE'' then Some ''payload.json''
                      else if k = ''INPUT_TOKEN'' then Some ''t0ken''
                      else if k = ''GITHUB_REPOSITORY'' then Some ''octo/demo'' else None),
        agentFetch := Response \<lparr>status_code = 200,
          raw = ''{"status":"completed","plan":{"branch":"b1"}}'',
          parsed = Some (JObj [(''status'', JStr ''completed''),
                               (''plan'', JObj [(''branch'', JStr ''b1'')])])\<rparr>\<rparr>\<close>

text \<open>A merge request to the repository host.\<close>

fun isMergeCall :: "event \<Rightarrow> bool" where
  "isMergeCall (GitHubCall (MergePull r n m)) = True"
| "isMergeCall ev = False"

text \<open>
  Example run: the plan asks for a merge, the merge-strategy input is
  \<^verbatim>\<open>fast-forward\<close>, something is staged, and the host answers the creation of the
  pull request with number 7.
\<close>

definition mergePlan :: jsval where
  "mergePlan = JObj [(''branch'', JStr ''b1''),
                     (''files'', JArr [JObj [(''path'', JStr ''a.txt''), (''contents'', JStr ''hi'')]]),
                     (''pullRequest'', JObj [(''merge'', JBool True)])]"

fun createdReply :: "gh_request \<Rightarrow> fetch_result" where
  \<open>createdReply (CreatePull r h b t d f) =
     Response \<lparr>status_code = 201, raw = ''{"number":7}'',
       parsed = Some (JObj [(''number'', JNum 7)])\<rparr>\<close>
| "createdReply q = Rejected []"

definition mergeEnv :: env where
  \<open>mergeEnv =
     urlEnv\<lparr>
        vars := (\<lambda>k. if k = ''INPUT_PAYLOAD-FILE'' then Some ''payload.json''
                      else if k = ''INPUT_TOKEN'' then Some ''t0ken''
                      else if k = ''INPUT_MERGE-STRATEGY'' then Some ''fast-forward''
                      else if k = ''GITHUB_REPOSITORY'' then Some ''octo/demo'' else None),
        agentFetch := Response \<lparr>status_code = 200,
          raw = ''{"status":"completed","plan":{"branch":"b1","files":[{"path":"a.txt","contents":"hi"}],"pullRequest":{"merge":true}}}'',
          parsed = Some (JObj [(''status'', JStr ''completed''), (''plan'', mergePlan)])\<rparr>,
        git := (\<lambda>args. if args = diffArgs then Exited 1 else Exited 0),
        github := createdReply\<rparr>\<close>


definition demoRepo :: repo where
  "demoRepo = \<lparr>owner = ''octo'', name = ''demo''\<rparr>"

text \<open>The same run with no merge-strategy input and the number 5 as the plan's strategy.\<close>

definition numberPlan :: jsval where
  "numberPlan = JObj [(''branch'', JStr ''b1''),
                      (''files'', JArr [JObj [(''path'', JStr ''a.txt''), (''contents'', JStr ''hi'')]]),
                      (''pullRequest'', JObj [(''merge'', JBool True), (''mergeStrategy'', JNum 5)])]"

definition numberEnv :: env where
  \<open>numberEnv =
     urlEnv\<lparr>
        vars := (\<lambda>k. if k = ''INPUT_PAYLOAD-FILE'' then Some ''payload.json''
                      else if k = ''INPUT_TOKEN'' then Some ''t0ken''
                      else if k = ''GITHUB_REPOSITORY'' then Some ''octo/demo'' else None),
        agentFetch := Response \<lparr>status_code = 200,
          raw = ''{"status":"completed","plan":{"branch":"b1","files":[{"path":"a.txt","contents":"hi"}],"pullRequest":{"merge":true,"mergeStrategy":5}}}'',
          parsed = Some (JObj [(''status'', JStr ''completed''), (''plan'', numberPlan)])\<rparr>,
        git := (\<lambda>args. if args = diffArgs then Exited 1 else Exited 0),
        github := createdReply\<rparr>\<close>

section \<open>Properties of the job poller\<close>

lemma attempts_append [simp]: "attempts (xs @ ys) = attempts xs + attempts ys"
  by (simp add: attempts_def)

lemma attempts_Nil [simp]: "attempts [] = 0"
  by (simp add: attempts_def)

lemma attempts_Cons [simp]: "attempts (e # tr) = (if is_request e then 1 else 0) + attempts tr"
  by (simp add: attempts_def)

lemma fst_emit [simp]: "fst (emit evs res) = evs @ fst res"
  by (simp add: emit_def)

lemma snd_emit [simp]: "snd (emit evs res) = snd res"
  by (simp add: emit_def)

lemma attempts_logAgentStatus [simp]: "attempts (logAgentStatus k s m f i) = 0"
  by (simp add: logAgentStatus_def)

lemma attempts_logPipeline [simp]: "attempts (fst (logPipeline d seen)) = 0"
  by (simp add: logPipeline_def logCoder_def logReviewer_def Let_def)

lemma timing_logPipeline [simp]: "filter is_timing (fst (logPipeline d seen)) = []"
  by (simp add: logPipeline_def logCoder_def logReviewer_def logAgentStatus_def Let_def)

text \<open>One iteration of the loop, and the exit when the attempts are used up.\<close>

lemma pollLoop_unfold:
  "attempt < maxAttempts \<Longrightarrow>
   pollLoop fetch runId attempt seen =
     emit [Sleep pollInterval, Debug (PollAttempt (attempt + 1)), HttpGetStatus runId]
       (case fetch attempt of
          Rejected msg \<Rightarrow> ([], Inl (FetchFailed msg))
        | Response r \<Rightarrow>
            (case parsed r of
               None \<Rightarrow> emit [Warning StatusNotJson] (pollLoop fetch runId (attempt + 1) seen)
             | Some data \<Rightarrow>
                 if \<not> ok r then
                   (if status_code r = 404 then ([], Inl (JobNotFound runId))
                    else if status_code r = 410 then ([], Inl (JobExpired runId))
                    else ([], Inl (StatusCheckFailed (status_code r) (take 200 (raw r)))))
                 else if nullish data then ([], Inl TypeError)
                 else
                   emit (fst (logPipeline data seen))
                     (if strict_eq (getProp data ''status'') (JStr ''completed'') then
                        ([Notice Blank,
                          Notice (JobCompleted runId (((attempt + 1) * pollInterval) div 1000))],
                         Inr data)
                      else if strict_eq (getProp data ''status'') (JStr ''failed'') then
                        ([Warning (JobFailed runId
                            (js_or (getProp data ''error'') (JStr ''Unknown error'')))],
                         Inr (js_or (getProp data ''result'') data))
                      else if strict_eq (getProp data ''status'') (JStr ''processing'') then
                        emit [Debug (StillProcessing
                                (js_or (getProp data ''elapsed_seconds'')
                                   (JNum (int ((attempt + 1) * 5)))))]
                          (pollLoop fetch runId (attempt + 1) (snd (logPipeline data seen)))
                      else
                        emit [Warning (UnknownStatus (getProp data ''status''))]
                          (pollLoop fetch runId (attempt + 1) (snd (logPipeline data seen))))))"
  by (subst pollLoop.simps) simp

lemma pollLoop_done:
  "\<not> attempt < maxAttempts \<Longrightarrow> pollLoop fetch runId attempt seen = ([], Inl (JobTimedOut runId))"
  by (subst pollLoop.simps) simp

subsection \<open>The attempt ceiling\<close>




subsection \<open>The order of sleeping and asking\<close>

lemma pollLoop_shape:
  assumes "attempt < maxAttempts"
  obtains (stop) res where
      "pollLoop fetch runId attempt seen =
         emit [Sleep pollInterval, Debug (PollAttempt (attempt + 1)), HttpGetStatus runId] res"
      "attempts (fst res) = 0" "filter is_timing (fst res) = []"
  | (go) x seen' where
      "pollLoop fetch runId attempt seen =
         emit [Sleep pollInterval, Debug (PollAttempt (attempt + 1)), HttpGetStatus runId]
           (emit x (pollLoop fetch runId (attempt + 1) seen'))"
      "attempts x = 0" "filter is_timing x = []"
proof (cases "fetch attempt")
  case (Rejected msg)
  show ?thesis
    by (rule stop[of "([], Inl (FetchFailed msg))"])
       (simp_all add: pollLoop_unfold[OF assms] Rejected)
next
  case (Response r)
  show ?thesis
  proof (cases "parsed r")
    case None
    show ?thesis
      by (rule go[of "[Warning StatusNotJson]" seen])
         (simp_all add: pollLoop_unfold[OF assms] Response None emit_def)
  next
    case (Some d)
    show ?thesis
    proof (cases "ok r \<and> \<not> nullish d")
      case False
      show ?thesis
        by (rule stop[of "([], snd (pollLoop fetch runId attempt seen))"])
           (use False in \<open>auto simp add: pollLoop_unfold[OF assms] Response Some emit_def\<close>)
    next
      case True
      let ?st = "getProp d ''status''"
      show ?thesis
      proof (cases "strict_eq ?st (JStr ''completed'') \<or> strict_eq ?st (JStr ''failed'')")
        case t: True
        show ?thesis
          by (rule stop[of "(fst (logPipeline d seen) @
                 (if strict_eq ?st (JStr ''completed'') then
                    [Notice Blank, Notice (JobCompleted runId (((attempt + 1) * pollInterval) div 1000))]
                  else [Warning (JobFailed runId (js_or (getProp d ''error'') (JStr ''Unknown error'')))]),
                 snd (pollLoop fetch runId attempt seen))"])
             (use True t in \<open>auto simp add: pollLoop_unfold[OF assms] Response Some emit_def\<close>)
      next
        case f: False
        show ?thesis
          by (rule go[of "fst (logPipeline d seen) @
                 (if strict_eq ?st (JStr ''processing'') then
                    [Debug (StillProcessing (js_or (getProp d ''elapsed_seconds'')
                       (JNum (int ((attempt + 1) * 5)))))]
                  else [Warning (UnknownStatus ?st)])" "snd (logPipeline d seen)"])
             (use True f in \<open>auto simp add: pollLoop_unfold[OF assms] Response Some emit_def\<close>)
      qed
    qed
  qed
qed

lemma pollLoop_timing:
  "attempt \<le> maxAttempts \<Longrightarrow>
   filter is_timing (fst (pollLoop fetch runId attempt seen)) =
     concat (replicate (attempts (fst (pollLoop fetch runId attempt seen)))
       [Sleep pollInterval, HttpGetStatus runId]) \<and>
   attempt + attempts (fst (pollLoop fetch runId attempt seen)) \<le> maxAttempts"
proof (induction "maxAttempts - attempt" arbitrary: attempt seen)
  case 0
  then show ?case by (simp add: pollLoop_done)
next
  case (Suc n)
  then have lt: "attempt < maxAttempts" by simp
  from lt show ?case
  proof (cases rule: pollLoop_shape[where fetch = fetch and runId = runId and seen = seen])
    case (stop res)
    then show ?thesis using lt by simp
  next
    case (go x seen')
    have "n = maxAttempts - (attempt + 1)" "attempt + 1 \<le> maxAttempts"
      using Suc.hyps(2) lt by simp_all
    from Suc.hyps(1)[OF this, of seen'] go lt show ?thesis by simp
  qed
qed

text \<open>
  C10. The timer and request events of a polling run are pairs of a 5000 ms sleep followed
  by a status request, one pair per attempt: the run starts with a sleep, every request
  (the first and the last too) comes right after a sleep, and there are between 1 and 120
  attempts.
\<close>

theorem sleep_precedes_every_status_request:
  "filter is_timing (fst (pollAgentStatus fetch runId)) =
     concat (replicate (attempts (fst (pollAgentStatus fetch runId)))
       [Sleep 5000, HttpGetStatus runId]) \<and>
   1 \<le> attempts (fst (pollAgentStatus fetch runId)) \<and>
   attempts (fst (pollAgentStatus fetch runId)) \<le> 120"
proof -
  have lt: "0 < maxAttempts" by (simp add: maxAttempts_def)
  have "1 \<le> attempts (fst (pollLoop fetch runId 0 noneLogged))"
    using lt
    by (cases rule: pollLoop_shape[where fetch = fetch and runId = runId and seen = noneLogged])
      simp_all
  then show ?thesis
    using pollLoop_timing[of 0 fetch runId noneLogged]
    by (simp add: pollAgentStatus_def maxAttempts_def pollInterval_def)
qed

subsection \<open>Terminal HTTP codes\<close>

text \<open>When the body of a 404 or 410 response parses, the error is raised at once.\<close>

lemma terminal_code_with_parsed_body:
  assumes "fetch 0 = Response r" "parsed r = Some d"
  shows "status_code r = 404 \<Longrightarrow> snd (pollAgentStatus fetch runId) = Inl (JobNotFound runId) \<and>
           attempts (fst (pollAgentStatus fetch runId)) = 1"
    and "status_code r = 410 \<Longrightarrow> snd (pollAgentStatus fetch runId) = Inl (JobExpired runId) \<and>
           attempts (fst (pollAgentStatus fetch runId)) = 1"
  using assms
  by (simp_all add: pollAgentStatus_def pollLoop_unfold maxAttempts_def ok_def)

text \<open>
  C2. A 404 or 410 response whose body is not JSON raises nothing: the loop warns about
  the body and polls again. Here the first poll meets such a response and the second
  one a completed job; the run makes two requests and returns the job's data.
\<close>

theorem terminal_code_with_unparsable_body_is_retried:
  "snd (pollAgentStatus (\<lambda>i. if i = 0 then errorPage 404 else completedJson) (JStr ''abc'')) =
     Inr (JObj [(''status'', JStr ''completed'')]) \<and>
   attempts (fst (pollAgentStatus (\<lambda>i. if i = 0 then errorPage 404 else completedJson)
     (JStr ''abc''))) = 2 \<and>
   snd (pollAgentStatus (\<lambda>i. if i = 0 then errorPage 410 else completedJson) (JStr ''abc'')) =
     Inr (JObj [(''status'', JStr ''completed'')]) \<and>
   attempts (fst (pollAgentStatus (\<lambda>i. if i = 0 then errorPage 410 else completedJson)
     (JStr ''abc''))) = 2"
  by (simp add: pollAgentStatus_def pollLoop_unfold maxAttempts_def errorPage_def
      completedJson_def ok_def strict_eq_def logPipeline_def)

subsection \<open>Status notifications\<close>


lemma notified_append [simp]: "notified k (xs @ ys) = notified k xs @ notified k ys"
  by (simp add: notified_def)
lemma notified_Nil [simp]: "notified k [] = []" by (simp add: notified_def)
lemma notified_Cons [simp]: "notified k (e # tr) = statusNote k e @ notified k tr"
  by (simp add: notified_def)

lemma reports_0 [simp]: "reports k fetch a 0 = []" by (simp add: reports_def)

lemma notified_logAgentStatus [simp]:
  "notified k (logAgentStatus a s m f i) = (if a = k then [s] else [])"
  by (simp add: logAgentStatus_def)























section \<open>Properties of the plan applier\<close>

lemma inside_normalize:
  "staysInside (length rest) segs \<Longrightarrow> prefix root (normalizeSegments (root @ rest) segs)"
proof (induction segs arbitrary: rest)
  case Nil
  then show ?case by simp
next
  case (Cons s ss)
  show ?case
  proof (cases "s = [] \<or> s = ''.''")
    case True
    then show ?thesis using Cons by auto
  next
    case False
    show ?thesis
    proof (cases "s = ''..''")
      case True
      with Cons.prems False have r: "rest \<noteq> []" "staysInside (length (butlast rest)) ss"
        by auto
      then have "butlast (root @ rest) = root @ butlast rest" by (simp add: butlast_append)
      with Cons.IH[OF r(2)] True show ?thesis by simp
    next
      case f2: False
      with Cons.prems False have "staysInside (length (rest @ [s])) ss" by simp
      from Cons.IH[OF this] False f2 show ?thesis by simp
    qed
  qed
qed

lemma confined_inside: "confined p \<Longrightarrow> prefix root (resolvePath root p)"
  using inside_normalize[of "[]" "splitOn CHR ''/'' p" root]
  by (simp add: confined_def resolvePath_def)

lemma fst_andThen:
  "fst (andThen m f) = fst m @ (case snd m of Inl err \<Rightarrow> [] | Inr a \<Rightarrow> fst (f a))"
  by (simp add: andThen_def split: sum.splits)


lemma andThen_Inr [simp]: "andThen (evs, Inr a) f = emit evs (f a)"
  by (simp add: andThen_def)

lemma andThen_Inl [simp]: "andThen (evs, Inl err) f = (evs, Inl err)"
  by (simp add: andThen_def)

lemma emit_pair: "emit evs (tr, r) = (evs @ tr, r)"
  by (simp add: emit_def)

lemma targets_append [simp]: "targets (xs @ ys) = targets xs @ targets ys"
  by (simp add: targets_def)

lemma targets_Nil [simp]: "targets [] = []"
  by (simp add: targets_def)

lemma targets_Cons [simp]: "targets (ev # tr) = touched ev @ targets tr"
  by (simp add: targets_def)

lemma targets_writeFileChange:
  "set (targets (fst (writeFileChange e change fs)))
     \<subseteq> (case fc_path change of JStr p \<Rightarrow> {resolvePath (cwd e) p} | other \<Rightarrow> {})"
  by (cases "fc_path change")
     (auto simp: writeFileChange_def fst_andThen doing_def throw_def split: sum.splits)

lemma targets_writeAll:
  "set (targets (fst (writeAll e cs fs)))
     \<subseteq> resolvePath (cwd e) ` {p. JStr p \<in> fc_path ` set cs}"
proof (induction cs arbitrary: fs)
  case Nil
  then show ?case by (simp add: ret_def)
next
  case (Cons c cs)
  have a: "set (targets (fst (writeFileChange e c fs)))
      \<subseteq> resolvePath (cwd e) ` {p. JStr p \<in> fc_path ` set (c # cs)}"
    using targets_writeFileChange[of e c fs] by (cases "fc_path c") auto
  have b: "\<And>fs1. set (targets (fst (writeAll e cs fs1)))
      \<subseteq> resolvePath (cwd e) ` {p. JStr p \<in> fc_path ` set (c # cs)}"
    using Cons by fastforce
  show ?case
    using a b by (auto simp: fst_andThen split: sum.splits)
qed

lemma targets_removeFile:
  "targets (fst (removeFile e p fs)) = [resolvePath (cwd e) p]"
  by (simp add: removeFile_def doing_def)

lemma targets_removeAll:
  "set (targets (fst (removeAll e items fs)))
     \<subseteq> resolvePath (cwd e) ` {p. JStr p \<in> set (concat (map deletionPath items))}"
proof (induction items arbitrary: fs)
  case Nil
  then show ?case by (simp add: ret_def)
next
  case (Cons item items)
  let ?S = "resolvePath (cwd e) ` {p. JStr p \<in> set (concat (map deletionPath (item # items)))}"
  have rest: "\<And>fs1. set (targets (fst (removeAll e items fs1))) \<subseteq> ?S"
    using Cons by fastforce
  have step: "\<And>s d. JStr s \<in> set (deletionPath item) \<Longrightarrow>
      set (targets (fst (andThen (removeFile e s fs)
        (\<lambda>fs1. emit [Debug (RemovedFile d)] (removeAll e items fs1))))) \<subseteq> ?S"
    using rest by (auto simp: fst_andThen targets_removeFile split: sum.splits)
  show ?case
  proof (cases item)
    case (JStr s)
    then show ?thesis using step[of s] by simp
  next
    case (JObj kvs)
    show ?thesis
    proof (cases "getProp (JObj kvs) ''path''")
      case (JStr s)
      then show ?thesis using step[of s] JObj by simp
    qed (use rest JObj in simp_all)
  qed (use rest in simp_all)
qed

lemma stringPaths_set:
  "set (stringPaths plan) = {p. JStr p \<in> set (planPaths plan)}"
  by (auto simp: stringPaths_def split: jsval.splits)

text \<open>
  C1, as the code has it. Every file written and every path removed by the applier is
  the join of the current directory with a path the plan names, as
  \<^verbatim>\<open>path.resolve\<close> gives it, and nothing is checked. The join of a path that is
  relative and never climbs above the directory lies at or below the working tree root.
\<close>

theorem plan_targets_are_unchecked_joins:
  "set (targets (fst (applyFileOperations e plan fs)))
     \<subseteq> resolvePath (cwd e) ` set (stringPaths plan) \<and>
   (confined p \<longrightarrow> prefix (cwd e) (resolvePath (cwd e) p))"
proof -
  let ?ups = "normalizeFileChanges
       (js_or (getProp plan ''files'') (js_or (getProp plan ''updates'') (JArr [])))"
  let ?dels = "case getProp plan ''deletions'' of JArr items \<Rightarrow> items | other \<Rightarrow> []"
  have w: "\<And>fs0. set (targets (fst (writeAll e ?ups fs0)))
      \<subseteq> resolvePath (cwd e) ` set (stringPaths plan)"
    using targets_writeAll[of e ?ups] by (fastforce simp: stringPaths_set planPaths_def)
  have r: "\<And>fs0. set (targets (fst (removeAll e ?dels fs0)))
      \<subseteq> resolvePath (cwd e) ` set (stringPaths plan)"
    using targets_removeAll[of e ?dels] by (fastforce simp: stringPaths_set planPaths_def)
  have "set (targets (fst (applyFileOperations e plan fs)))
      \<subseteq> resolvePath (cwd e) ` set (stringPaths plan)"
    using w[of fs] r
    by (auto simp: applyFileOperations_def Let_def fst_andThen split: sum.splits)
  then show ?thesis by (simp add: confined_inside)
qed


lemmas applier_eval =
  applyFileOperations_def normalizeFileChanges_def List.map_filter_simps js_or_def
  js_coalesce_def Let_def writeFileChange_def removeFile_def doing_def resolvePath_def
  isAbsolute_def dirname_def fsMkdir_def fsWriteFile_def fsRm_def fileAbove_def fileData_def
  strict_eq_def ret_def emit_pair

text \<open>
  C1 as stated fails: a change at \<^verbatim>\<open>../outside.txt\<close> is written beside the working
  tree, and a deletion of \<^verbatim>\<open>/etc/hosts\<close> removes that very path.
\<close>

theorem plan_targets_outside_tree_counterexample:
  "targets (fst (applyFileOperations escEnv escPlan emptyTree)) =
     [[''home'', ''runner'', ''outside.txt''], [''etc'', ''hosts'']] \<and>
   \<not> prefix (cwd escEnv) [''home'', ''runner'', ''outside.txt''] \<and>
   \<not> prefix (cwd escEnv) [''etc'', ''hosts'']"
  by (simp add: applier_eval escPlan_def escEnv_def emptyTree_def)

theorem plan_targets_are_unchecked_joins_witness:
  "set (targets (fst (applyFileOperations escEnv safePlan emptyTree)))
     \<subseteq> resolvePath (cwd escEnv) ` set (stringPaths safePlan) \<and>
   stringPaths safePlan = [''src/a.txt'', ''old/../tmp.txt''] \<and>
   prefix (cwd escEnv) (resolvePath (cwd escEnv) ''src/a.txt'') \<and>
   prefix (cwd escEnv) (resolvePath (cwd escEnv) ''old/../tmp.txt'')"
proof -
  have c: "confined ''src/a.txt''" "confined ''old/../tmp.txt''"
    by (simp_all add: confined_def isAbsolute_def)
  have s: "stringPaths safePlan = [''src/a.txt'', ''old/../tmp.txt'']"
    by (simp add: stringPaths_def planPaths_def safePlan_def normalizeFileChanges_def
        List.map_filter_simps js_or_def js_coalesce_def)
  show ?thesis
    using plan_targets_are_unchecked_joins[of escEnv safePlan emptyTree "''src/a.txt''"]
      plan_targets_are_unchecked_joins[of escEnv safePlan emptyTree "''old/../tmp.txt''"] c s
    by simp
qed









section \<open>Properties of the orchestrator\<close>

lemma carriesEndpoint_filter:
  "carriesEndpoint payload \<Longrightarrow>
   (if truthy payload \<and> isObject payload
    then filter truthy (map (getProp payload) endpointAliases) else []) =
   firstEndpoint payload # tl (filter truthy (map (getProp payload) endpointAliases))"
proof -
  assume c: "carriesEndpoint payload"
  then have "filter truthy (map (getProp payload) endpointAliases) \<noteq> []"
    by (auto simp: carriesEndpoint_def list_ex_iff filter_empty_conv)
  with c show ?thesis by (simp add: carriesEndpoint_def firstEndpoint_def)
qed

lemma no_endpoint_filter:
  "\<not> carriesEndpoint payload \<Longrightarrow>
   (if truthy payload \<and> isObject payload
    then filter truthy (map (getProp payload) endpointAliases) else []) = []"
  by (auto simp: carriesEndpoint_def list_ex_iff filter_empty_conv)

lemma resolveAgentUrl_payload:
  "carriesEndpoint payload \<Longrightarrow>
   resolveAgentUrl e payload base = Inr (Some (FromPayload (firstEndpoint payload)))"
  by (simp add: resolveAgentUrl_def carriesEndpoint_filter)

lemma resolveAgentUrl_none:
  "\<not> carriesEndpoint payload \<Longrightarrow> base = [] \<Longrightarrow> envString e ''PIXELFRAME_BASE_URL'' = [] \<Longrightarrow>
   resolveAgentUrl e payload base = Inr None"
  by (simp add: resolveAgentUrl_def no_endpoint_filter)

lemma getInput_inputOf: "getInput e n True = Inr v \<Longrightarrow> inputOf e n = v"
  by (auto simp: getInput_def inputOf_def split: if_splits)

lemma resolveRun_no_endpoint:
  assumes "inputOf e ''pixelframe-base-url'' = []" "envString e ''PIXELFRAME_BASE_URL'' = []"
    and "\<forall>body payload. readFile e (resolvePath (cwd e) (inputOf e ''payload-file'')) =
            Some (body, Some payload) \<longrightarrow> \<not> carriesEndpoint payload"
  shows "\<exists>err. snd (resolveRun e) = Inl err" "filter isExternalCall (fst (resolveRun e)) = []"
proof -
  show "\<exists>err. snd (resolveRun e) = Inl err"
  proof (cases "getInput e ''payload-file'' True")
    case (Inl err)
    then show ?thesis by (simp add: resolveRun_def throw_def)
  next
    case (Inr f)
    then have f: "inputOf e ''payload-file'' = f" by (rule getInput_inputOf)
    show ?thesis
    proof (cases "readFile e (resolvePath (cwd e) f)")
      case None
      then show ?thesis using Inr by (simp add: resolveRun_def throw_def)
    next
      case (Some bp)
      obtain body po where bp: "bp = (body, po)" by (cases bp)
      show ?thesis
      proof (cases po)
        case None
        then show ?thesis using Inr Some bp by (simp add: resolveRun_def throw_def)
      next
        case (Some payload)
        with assms(3) f \<open>readFile e (resolvePath (cwd e) f) = Some bp\<close> bp
        have "\<not> carriesEndpoint payload" by simp
        then show ?thesis
          using Inr Some bp \<open>readFile e (resolvePath (cwd e) f) = Some bp\<close> assms(1,2)
          by (simp add: resolveRun_def throw_def resolveAgentUrl_none)
      qed
    qed
  qed
  show "filter isExternalCall (fst (resolveRun e)) = []"
    by (simp add: resolveRun_def throw_def ret_def
        split: sum.splits option.splits prod.splits)
qed

lemma fst_andThen_Inl: "snd m = Inl err \<Longrightarrow> andThen m f = (fst m, Inl err)"
  by (simp add: andThen_def)

text \<open>
  C7. A payload's endpoint is returned whatever base URL is supplied or set. When the
  payload carries none and neither the input nor the environment gives a base URL,
  resolution returns no endpoint; a run in that situation ends with exit code 1 and
  makes no request and runs no command.
\<close>

theorem endpoint_resolution_precedence:
  "(carriesEndpoint payload \<longrightarrow>
      resolveAgentUrl e payload base = Inr (Some (FromPayload (firstEndpoint payload)))) \<and>
   (\<not> carriesEndpoint payload \<and> base = [] \<and> envString e ''PIXELFRAME_BASE_URL'' = [] \<longrightarrow>
      resolveAgentUrl e payload base = Inr None) \<and>
   (inputOf e ''pixelframe-base-url'' = [] \<and> envString e ''PIXELFRAME_BASE_URL'' = [] \<and>
    (\<forall>body p. readFile e (resolvePath (cwd e) (inputOf e ''payload-file'')) = Some (body, Some p)
        \<longrightarrow> \<not> carriesEndpoint p) \<longrightarrow>
      snd (run e) = 1 \<and> filter isExternalCall (fst (run e)) = [])"
proof (intro conjI impI)
  assume "carriesEndpoint payload"
  then show "resolveAgentUrl e payload base = Inr (Some (FromPayload (firstEndpoint payload)))"
    by (rule resolveAgentUrl_payload)
next
  assume "\<not> carriesEndpoint payload \<and> base = [] \<and> envString e ''PIXELFRAME_BASE_URL'' = []"
  then show "resolveAgentUrl e payload base = Inr None"
    by (simp add: resolveAgentUrl_none)
next
  assume a: "inputOf e ''pixelframe-base-url'' = [] \<and> envString e ''PIXELFRAME_BASE_URL'' = [] \<and>
    (\<forall>body p. readFile e (resolvePath (cwd e) (inputOf e ''payload-file'')) = Some (body, Some p)
        \<longrightarrow> \<not> carriesEndpoint p)"
  then obtain err where err: "snd (resolveRun e) = Inl err"
    using resolveRun_no_endpoint(1)[of e] by blast
  have q: "filter isExternalCall (fst (resolveRun e)) = []"
    using a resolveRun_no_endpoint(2)[of e] by blast
  have rb: "runBody e = (fst (resolveRun e), Inl err)"
    by (simp add: runBody_def fst_andThen_Inl[OF err])
  show "snd (run e) = 1" by (simp add: run_def rb)
  show "filter isExternalCall (fst (run e)) = []" by (simp add: run_def rb q)
qed

lemma input_keys:
  "formatInputKey ''payload-file'' = ''INPUT_PAYLOAD-FILE''"
  "formatInputKey ''token'' = ''INPUT_TOKEN''"
  "formatInputKey ''merge-strategy'' = ''INPUT_MERGE-STRATEGY''"
  "formatInputKey ''pixelframe-base-url'' = ''INPUT_PIXELFRAME-BASE-URL''"
  by code_simp+

lemma andThen_Inr_snd: "snd m = Inr a \<Longrightarrow> andThen m f = emit (fst m) (f a)"
  by (simp add: andThen_def)

lemma resolveRun_events:
  "filter isOutput (fst (resolveRun e)) = []" "filter isRepositoryOp (fst (resolveRun e)) = []"
  by (simp_all add: resolveRun_def throw_def ret_def split: sum.splits option.splits prod.splits)

lemma callAgent_empty_body:
  assumes "agentFetch e = Response r" "ok r" "raw r = []"
  shows "callAgent e url = ([Debug CallingAgent, HttpPostAgent url], Inr JUndefined)"
  using assms by (simp add: callAgent_def ret_def emit_pair)

lemma afterAgent_undefined:
  "afterAgent e JUndefined =
     ([Notice Blank, Notice HeaderRule, Notice PipelineCompleted, Notice HeaderRule], Inr ())"
  by (simp add: afterAgent_def agentOutputs_def planOf_def js_or_def maybeApplyRepositoryPlan_def
      ret_def noPr_def prOutputs_def logPipelineComplete_def emit_pair)

lemma logPipelineStart_events:
  "filter isOutput logPipelineStart = []" "filter isRepositoryOp logPipelineStart = []"
  by (simp_all add: logPipelineStart_def logAgentStatus_def)

text \<open>
  C9. When the run has resolved its endpoint and the agent answers 2xx with an empty
  body, \<^verbatim>\<open>callAgent\<close> returns \<^verbatim>\<open>undefined\<close> after the one request, and the
  run ends with exit code 0, sets no output and performs no repository operation.
\<close>

theorem empty_agent_response_completes_silently:
  assumes "snd (resolveRun e) = Inr url"
    and "agentFetch e = Response r" "ok r" "raw r = []"
  shows "callAgent e url = ([Debug CallingAgent, HttpPostAgent url], Inr JUndefined) \<and>
         snd (run e) = 0 \<and>
         filter isOutput (fst (run e)) = [] \<and>
         filter isRepositoryOp (fst (run e)) = []"
proof -
  have ca: "callAgent e url = ([Debug CallingAgent, HttpPostAgent url], Inr JUndefined)"
    using assms(2-4) by (rule callAgent_empty_body)
  have rb: "runBody e =
      (fst (resolveRun e)
       @ (if envString e ''PIXELFRAME_API_KEY'' = [] then [Warning NoApiKey] else [])
       @ logPipelineStart
       @ [Debug CallingAgent, HttpPostAgent url]
       @ [Notice Blank, Notice HeaderRule, Notice PipelineCompleted, Notice HeaderRule], Inr ())"
    by (simp add: runBody_def andThen_Inr_snd[OF assms(1)] ca afterAgent_undefined emit_pair)
  show ?thesis
    by (simp add: ca run_def rb resolveRun_events logPipelineStart_events)
qed

theorem empty_agent_response_completes_silently_witness:
  "run (urlEnv\<lparr>agentFetch := emptyReply\<rparr>) =
     ([ReadFile [''home'', ''runner'', ''work'', ''payload.json''], Warning NoApiKey,
       Notice HeaderRule, Notice HeaderTitle, Notice HeaderRule, Notice Blank,
       Notice (AgentStatusLine Ticket (JStr ''completed'') (JStr ''Ticket requirements analyzed'')),
       Debug CallingAgent, HttpPostAgent (FromPayload (JStr ''https://x/agent/run'')),
       Notice Blank, Notice HeaderRule, Notice PipelineCompleted, Notice HeaderRule], 0) \<and>
   filter isOutput (fst (run (urlEnv\<lparr>agentFetch := emptyReply\<rparr>))) = []"
proof -
  let ?e = "urlEnv\<lparr>agentFetch := emptyReply\<rparr>"
  have rr: "resolveRun ?e = ([ReadFile [''home'', ''runner'', ''work'', ''payload.json'']],
      Inr (FromPayload (JStr ''https://x/agent/run'')))"
    by (simp add: resolveRun_def urlEnv_def bareEnv_def escEnv_def urlPayload_def getInput_def
        envString_def input_keys
        trim_def isSpace_def resolvePath_def isAbsolute_def resolveAgentUrl_def
        endpointAliases_def inputOf_def ret_def throw_def emit_pair)
  have h1: "snd (resolveRun ?e) = Inr (FromPayload (JStr ''https://x/agent/run''))"
    by (simp add: rr)
  have h2: "agentFetch ?e = Response \<lparr>status_code = 200, raw = [], parsed = None\<rparr>"
    by (simp add: emptyReply_def)
  have ca: "callAgent ?e (FromPayload (JStr ''https://x/agent/run'')) =
      ([Debug CallingAgent, HttpPostAgent (FromPayload (JStr ''https://x/agent/run''))], Inr JUndefined)"
    and out: "filter isOutput (fst (run ?e)) = []"
    using empty_agent_response_completes_silently[OF h1 h2] by (simp_all add: ok_def)
  have "run ?e = ([ReadFile [''home'', ''runner'', ''work'', ''payload.json''], Warning NoApiKey,
       Notice HeaderRule, Notice HeaderTitle, Notice HeaderRule, Notice Blank,
       Notice (AgentStatusLine Ticket (JStr ''completed'') (JStr ''Ticket requirements analyzed'')),
       Debug CallingAgent, HttpPostAgent (FromPayload (JStr ''https://x/agent/run'')),
       Notice Blank, Notice HeaderRule, Notice PipelineCompleted, Notice HeaderRule], 0)"
  proof -
    have k: "envString ?e ''PIXELFRAME_API_KEY'' = []"
      by (simp add: urlEnv_def bareEnv_def escEnv_def envString_def)
    show ?thesis
      by (simp add: run_def runBody_def rr ca k afterAgent_undefined emit_pair
          logPipelineStart_def logAgentStatus_def strict_eq_def)
  qed
  with out show ?thesis by simp
qed

theorem endpoint_resolution_precedence_witness:
  "resolveAgentUrl escEnv urlPayload ''https://base.example'' =
     Inr (Some (FromPayload (JStr ''https://x/agent/run''))) \<and>
   resolveAgentUrl escEnv (JObj []) [] = Inr None \<and>
   snd (run bareEnv) = 1 \<and>
   filter isExternalCall (fst (run bareEnv)) = []"
proof -
  have c: "carriesEndpoint urlPayload" "firstEndpoint urlPayload = JStr ''https://x/agent/run''"
    "\<not> carriesEndpoint (JObj [])"
    by (simp_all add: carriesEndpoint_def firstEndpoint_def urlPayload_def endpointAliases_def)
  have v: "envString escEnv ''PIXELFRAME_BASE_URL'' = []"
    "envString bareEnv ''PIXELFRAME_BASE_URL'' = []"
    "inputOf bareEnv ''pixelframe-base-url'' = []"
    by (simp_all add: envString_def escEnv_def urlEnv_def bareEnv_def inputOf_def getInput_def
        input_keys trim_def)
  have r: "\<forall>body p. readFile bareEnv
        (resolvePath (cwd bareEnv) (inputOf bareEnv ''payload-file'')) =
        Some (body, Some p) \<longrightarrow> \<not> carriesEndpoint p"
    using c(3) by (simp add: urlEnv_def bareEnv_def)
  show ?thesis
    using endpoint_resolution_precedence[of urlPayload escEnv "''https://base.example''"]
      endpoint_resolution_precedence[of "JObj []" escEnv "[]"]
      endpoint_resolution_precedence[of "JObj []" bareEnv "[]"]
      c v r
    by simp
qed

section \<open>Properties of the repository driver\<close>

lemma allEvents_ret [intro!]: "allEvents Q (ret a)"
  by (simp add: allEvents_def ret_def)

lemma allEvents_throw [intro!]: "allEvents Q (throw err)"
  by (simp add: allEvents_def throw_def)

lemma allEvents_pair: "list_all Q evs \<Longrightarrow> allEvents Q (evs, r)"
  by (simp add: allEvents_def)

lemma allEvents_emit: "list_all Q evs \<Longrightarrow> allEvents Q m \<Longrightarrow> allEvents Q (emit evs m)"
  by (simp add: allEvents_def)

lemma allEvents_andThen:
  "allEvents Q m \<Longrightarrow> (\<And>a. snd m = Inr a \<Longrightarrow> allEvents Q (f a)) \<Longrightarrow> allEvents Q (andThen m f)"
  by (cases "snd m") (simp_all add: allEvents_def andThen_def)

lemma stops_emit: "list_all quiet evs \<Longrightarrow> stops m \<Longrightarrow> stops (emit evs m)"
  by (simp add: stops_def allEvents_def)

lemma stops_andThen:
  "allEvents quiet m \<Longrightarrow> (\<And>a. snd m = Inr a \<Longrightarrow> stops (f a)) \<Longrightarrow> stops (andThen m f)"
  by (cases "snd m") (simp_all add: stops_def allEvents_def andThen_def)

lemma quiet_simps [simp]:
  "quiet (Notice l)" "quiet (Warning l)" "quiet (Debug l)" "quiet (ReadFile p)"
  "quiet (HttpPostAgent u)" "quiet (Mkdir p)" "quiet (WriteFile p d)" "quiet (Remove p)"
  "quiet (SetFailed err)" "quiet (SetOutput RunId v)" "quiet (SetOutput Status v)"
  "quiet (Sleep n)" "quiet (HttpGetStatus v)"
  "quiet (RunGit args) = (gitVerb args \<noteq> ''commit'' \<and> gitVerb args \<noteq> ''push'')"
  by (simp_all add: quiet_def)

lemma quiet_runCommand:
  "gitVerb args \<noteq> ''commit'' \<Longrightarrow> gitVerb args \<noteq> ''push'' \<Longrightarrow> allEvents quiet (runCommand e args)"
  by (simp add: allEvents_def runCommand_def doing_def)

lemma quiet_ensureGitUserConfigured: "allEvents quiet (ensureGitUserConfigured e author)"
  unfolding ensureGitUserConfigured_def
  by (auto intro!: allEvents_andThen quiet_runCommand)

lemma quiet_prepareBranch: "allEvents quiet (prepareBranch e b base)"
  unfolding prepareBranch_def
  by (auto intro!: allEvents_andThen quiet_runCommand)

lemma quiet_writeFileChange: "allEvents quiet (writeFileChange e change fs)"
  by (cases "fc_path change")
     (auto simp: writeFileChange_def doing_def intro!: allEvents_andThen allEvents_pair
           split: sum.splits)

lemma quiet_writeAll: "allEvents quiet (writeAll e cs fs)"
  by (induction cs arbitrary: fs)
     (auto intro!: allEvents_andThen allEvents_emit quiet_writeFileChange)

lemma quiet_removeFile: "allEvents quiet (removeFile e p fs)"
  by (simp add: removeFile_def doing_def allEvents_def)

lemma quiet_removeAll: "allEvents quiet (removeAll e items fs)"
proof (induction items arbitrary: fs)
  case Nil
  show ?case by auto
next
  case (Cons item items)
  have step: "\<And>s d. allEvents quiet (andThen (removeFile e s fs)
      (\<lambda>fs1. emit [Debug (RemovedFile d)] (removeAll e items fs1)))"
    using Cons by (auto intro!: allEvents_andThen allEvents_emit quiet_removeFile)
  show ?case
  proof (cases item)
    case (JObj kvs)
    then show ?thesis using step Cons by (cases "getProp (JObj kvs) ''path''") simp_all
  qed (use step Cons in simp_all)
qed

lemma quiet_applyFileOperations: "allEvents quiet (applyFileOperations e plan fs)"
  unfolding applyFileOperations_def Let_def
  by (auto intro!: allEvents_emit allEvents_andThen quiet_writeAll quiet_removeAll)

lemma stageAndCommit_nothing_staged:
  assumes "git e diffArgs = Exited 0"
  shows "allEvents quiet (stageAndCommit e message)"
    and "snd (stageAndCommit e message) = Inr committed \<Longrightarrow> \<not> committed"
    and "snd (runCommand e [JStr ''add'', JStr ''--all'']) = Inr () \<Longrightarrow>
         stageAndCommit e message =
           ([RunGit [JStr ''add'', JStr ''--all''], RunGit diffArgs, Notice NoStagedChanges], Inr False)"
proof -
  have d: "runCommand e diffArgs = ([RunGit diffArgs], Inr ())"
    using assms by (simp add: runCommand_def doing_def)
  have v: "gitVerb diffArgs \<noteq> ''commit''" "gitVerb diffArgs \<noteq> ''push''"
    by (simp_all add: diffArgs_def)
  show "allEvents quiet (stageAndCommit e message)"
    unfolding stageAndCommit_def d
    using v by (auto intro!: allEvents_andThen quiet_runCommand allEvents_emit allEvents_pair)
  show "snd (stageAndCommit e message) = Inr committed \<Longrightarrow> \<not> committed"
    by (cases "snd (runCommand e [JStr ''add'', JStr ''--all''])")
       (auto simp: stageAndCommit_def d andThen_def)
  show "snd (runCommand e [JStr ''add'', JStr ''--all'']) = Inr () \<Longrightarrow>
         stageAndCommit e message =
           ([RunGit [JStr ''add'', JStr ''--all''], RunGit diffArgs, Notice NoStagedChanges], Inr False)"
  proof -
    assume "snd (runCommand e [JStr ''add'', JStr ''--all'']) = Inr ()"
    then have a: "runCommand e [JStr ''add'', JStr ''--all''] =
        ([RunGit [JStr ''add'', JStr ''--all'']], Inr ())"
      by (simp add: runCommand_def doing_def)
    show ?thesis
      by (simp add: stageAndCommit_def d a andThen_def emit_def)
  qed
qed

lemma stops_pair: "list_all quiet evs \<Longrightarrow> stops (evs, Inr noPr)"
  by (simp add: stops_def allEvents_def)

lemma stops_ret: "stops (ret noPr)"
  by (simp add: stops_def allEvents_def ret_def)

lemma stops_throw: "stops (throw err)"
  by (simp add: stops_def allEvents_def throw_def)

lemma maybeApplyRepositoryPlan_stops:
  assumes "git e diffArgs = Exited 0"
  shows "stops (maybeApplyRepositoryPlan e plan token ms)"
proof -
  note sc = stageAndCommit_nothing_staged[OF assms]
  show ?thesis
    unfolding maybeApplyRepositoryPlan_def
    by (auto intro!: stops_ret stops_throw stops_emit stops_pair stops_andThen
          quiet_ensureGitUserConfigured quiet_prepareBranch quiet_applyFileOperations sc(1)
        dest: sc(2) split: sum.splits)
qed

lemma poll_events_logPipeline: "list_all isPollEvent (fst (logPipeline d seen))"
  by (simp add: logPipeline_def logCoder_def logReviewer_def logAgentStatus_def Let_def)

lemma pollLoop_poll_events: "list_all isPollEvent (fst (pollLoop fetch runId attempt seen))"
proof (induction "maxAttempts - attempt" arbitrary: attempt seen)
  case 0
  then show ?case by (simp add: pollLoop_done)
next
  case (Suc n)
  then have lt: "attempt < maxAttempts" by simp
  have ih: "\<And>seen'. list_all isPollEvent (fst (pollLoop fetch runId (attempt + 1) seen'))"
    using Suc.hyps(1)[of "attempt + 1"] Suc.hyps(2) by simp
  show ?case
    using ih poll_events_logPipeline
    by (simp add: pollLoop_unfold[OF lt] split: fetch_result.splits option.splits)
qed

lemma isPollEvent_quiet: "isPollEvent ev \<Longrightarrow> quiet ev"
  by (cases ev) simp_all

lemma quiet_pollAgentStatus: "allEvents quiet (pollAgentStatus fetch runId)"
  using pollLoop_poll_events[of fetch runId 0 noneLogged]
  by (auto simp: allEvents_def pollAgentStatus_def list_all_iff isPollEvent_quiet)

lemma quiet_callAgent: "allEvents quiet (callAgent e url)"
  unfolding callAgent_def
  by (auto intro!: allEvents_emit allEvents_andThen allEvents_pair quiet_pollAgentStatus
      split: fetch_result.splits option.splits)

lemma quiet_resolveRun: "allEvents quiet (resolveRun e)"
  by (simp add: allEvents_def resolveRun_def throw_def ret_def
      split: sum.splits option.splits prod.splits)

lemma quiet_agentOutputs: "list_all quiet (agentOutputs resp)"
  by (simp add: agentOutputs_def)

lemma quiet_logPipelineStart: "list_all quiet logPipelineStart"
  by (simp add: logPipelineStart_def logAgentStatus_def)

lemma quiet_afterAgent:
  assumes "git e diffArgs = Exited 0"
  shows "allEvents quiet (afterAgent e resp)"
  unfolding afterAgent_def
proof (intro allEvents_emit quiet_agentOutputs allEvents_andThen)
  show "allEvents quiet (maybeApplyRepositoryPlan e (planOf resp) (tokenOf e) (inputOf e ''merge-strategy''))"
    using maybeApplyRepositoryPlan_stops[OF assms] by (simp add: stops_def)
next
  fix res
  assume "snd (maybeApplyRepositoryPlan e (planOf resp) (tokenOf e) (inputOf e ''merge-strategy'')) = Inr res"
  then have "res = noPr"
    using maybeApplyRepositoryPlan_stops[OF assms, of "planOf resp" "tokenOf e" "inputOf e ''merge-strategy''"]
    by (simp add: stops_def)
  then show "allEvents quiet (prOutputs res @ logPipelineComplete (prNumber res) (prUrl res), Inr ())"
    by (simp add: allEvents_def noPr_def prOutputs_def logPipelineComplete_def)
qed

lemma quiet_runBody:
  assumes "git e diffArgs = Exited 0"
  shows "allEvents quiet (runBody e)"
  unfolding runBody_def
  by (auto intro!: allEvents_andThen allEvents_emit quiet_resolveRun quiet_callAgent
        quiet_afterAgent[OF assms] quiet_logPipelineStart)

lemma filter_none: "list_all Q xs \<Longrightarrow> (\<And>x. Q x \<Longrightarrow> \<not> P x) \<Longrightarrow> filter P xs = []"
  by (auto simp: list_all_iff filter_empty_conv)

text \<open>
  C5. When \<^verbatim>\<open>git diff --cached --quiet\<close> exits with code 0: \<^verbatim>\<open>stageAndCommit\<close>,
  once the staging itself went through, reports that nothing is staged and returns false
  without a commit; applying a plan then runs no commit and no push, sends nothing to the
  repository host and can only return a null number and a null URL; and the whole run
  runs no commit or push, sends no such request and sets neither the pr-number nor the
  pr-url output.
\<close>

theorem nothing_staged_means_no_push_no_pr:
  assumes "git e diffArgs = Exited 0"
  shows "(snd (runCommand e [JStr ''add'', JStr ''--all'']) = Inr () \<longrightarrow>
           stageAndCommit e message =
             ([RunGit [JStr ''add'', JStr ''--all''], RunGit diffArgs, Notice NoStagedChanges],
              Inr False)) \<and>
         filter isCommitPushOrPr (fst (maybeApplyRepositoryPlan e plan token ms)) = [] \<and>
         (\<forall>res. snd (maybeApplyRepositoryPlan e plan token ms) = Inr res \<longrightarrow> res = noPr) \<and>
         filter isCommitPushOrPr (fst (run e)) = [] \<and>
         filter isPrOutput (fst (run e)) = []"
proof -
  have st: "stops (maybeApplyRepositoryPlan e plan token ms)"
    using assms by (rule maybeApplyRepositoryPlan_stops)
  have rb: "list_all quiet (fst (runBody e))"
    using quiet_runBody[OF assms] by (simp add: allEvents_def)
  then have r: "list_all quiet (fst (run e))"
    by (simp add: run_def split: sum.splits)
  have q1: "\<And>ev. quiet ev \<Longrightarrow> \<not> isCommitPushOrPr ev" and q2: "\<And>ev. quiet ev \<Longrightarrow> \<not> isPrOutput ev"
    by (simp_all add: quiet_def)
  show ?thesis
    using stageAndCommit_nothing_staged(3)[OF assms, of message] st
      filter_none[OF r q1] filter_none[OF r q2]
      filter_none[of quiet "fst (maybeApplyRepositoryPlan e plan token ms)" isCommitPushOrPr, OF _ q1]
    by (auto simp: stops_def allEvents_def)
qed

theorem nothing_staged_means_no_push_no_pr_witness:
  "stageAndCommit stagingEnv (JStr ''PixelFrame agent updates'') =
     ([RunGit [JStr ''add'', JStr ''--all''], RunGit diffArgs, Notice NoStagedChanges], Inr False) \<and>
   filter isCommitPushOrPr (fst (run stagingEnv)) = [] \<and>
   filter isPrOutput (fst (run stagingEnv)) = []"
proof -
  have g: "git stagingEnv diffArgs = Exited 0"
    by (simp add: stagingEnv_def urlEnv_def bareEnv_def escEnv_def)
  have a: "snd (runCommand stagingEnv [JStr ''add'', JStr ''--all'']) = Inr ()"
    by (simp add: runCommand_def doing_def stagingEnv_def urlEnv_def bareEnv_def escEnv_def)
  show ?thesis
    using nothing_staged_means_no_push_no_pr[OF g, of "JStr ''PixelFrame agent updates''"] a
    by simp
qed

section \<open>Properties of the pull request manager\<close>


lemma createOrUpdatePullRequest_truthy:
  assumes "snd (createOrUpdatePullRequest e rp b base spec token) = Inr number" "truthy number"
  shows "rp \<noteq> None \<and> token \<noteq> []"
  using assms by (auto simp: createOrUpdatePullRequest_def ret_def split: option.splits if_splits)

lemma maybeMergePullRequest_unsupported:
  assumes "truthy number" "token \<noteq> []" "s \<noteq> []" "toLowerCase s \<notin> set mergeMethods"
  shows "maybeMergePullRequest e (Some r) number (JStr s) token =
           ([Warning (UnsupportedMergeStrategy (JStr s))], Inr ())"
  using assms by (simp add: maybeMergePullRequest_def)

lemma no_merge_githubRequest:
  "filter isMergeCall (fst (githubRequest e (RequestReviewers r n u t))) = []"
  by (simp add: githubRequest_def fst_andThen throw_def ret_def
      split: fetch_result.splits option.splits sum.splits)

lemma no_merge_reviewStep: "filter isMergeCall (fst (reviewStep e plan rp token number)) = []"
  by (simp add: reviewStep_def requestReviewsIfNeeded_def ret_def Let_def fst_andThen
      no_merge_githubRequest split: option.splits sum.splits)

text \<open>
  A strategy that is a string. Take the point where \<^verbatim>\<open>createOrUpdatePullRequest\<close>
  has returned a number for the pull request, with a merge requested and a strategy,
  from the input or else from the plan, that is a non-empty string outside merge, squash
  and rebase once in lower case. If the reviewers step goes through, the merge step
  only warns; the rest of the plan application sends no merge request and returns the
  number with the URL of the pull request, and both are set as outputs.
\<close>

lemma unsupported_merge_strategy_is_skipped:
  assumes "snd (createOrUpdatePullRequest e rp (branchOf plan) (baseOf plan) (prSpecOf plan) token)
             = Inr number"
    and "truthy number"
    and "shouldMerge plan"
    and "js_or (JStr ms) (getProp (prSpecOf plan) ''mergeStrategy'') = JStr s"
    and "s \<noteq> []" "toLowerCase s \<notin> set mergeMethods"
    and "snd (reviewStep e plan rp token number) = Inr ()"
  shows "\<exists>r. rp = Some r \<and>
           mergeStep e plan rp token ms number =
             ([Warning (UnsupportedMergeStrategy (JStr s))], Inr ()) \<and>
           finishPullRequest e plan rp token ms number =
             (fst (reviewStep e plan rp token number) @ [Warning (UnsupportedMergeStrategy (JStr s))],
              Inr \<lparr>prNumber = number, prUrl = Some r\<rparr>) \<and>
           filter isMergeCall (fst (finishPullRequest e plan rp token ms number)) = [] \<and>
           prOutputs \<lparr>prNumber = number, prUrl = Some r\<rparr> =
             [SetOutput PrNumber number, SetOutput (PrUrl r) number]"
proof -
  from createOrUpdatePullRequest_truthy[OF assms(1,2)]
  obtain r where r: "rp = Some r" and tok: "token \<noteq> []" by auto
  have rs: "snd (reviewStep e plan (Some r) token number) = Inr ()"
    using assms(7) r by simp
  have m: "mergeStep e plan (Some r) token ms number =
      ([Warning (UnsupportedMergeStrategy (JStr s))], Inr ())"
    using assms(3,4) maybeMergePullRequest_unsupported[OF assms(2) tok assms(5,6), of e r]
    by (simp add: mergeStep_def)
  have f: "finishPullRequest e plan (Some r) token ms number =
      (fst (reviewStep e plan (Some r) token number) @ [Warning (UnsupportedMergeStrategy (JStr s))],
       Inr \<lparr>prNumber = number, prUrl = Some r\<rparr>)"
    using assms(2)
    by (simp add: finishPullRequest_def andThen_Inr_snd[OF rs] m ret_def emit_pair)
  show ?thesis
    using r m f assms(2) by (simp add: no_merge_reviewStep prOutputs_def)
qed



lemma lower_fast_forward: "toLowerCase ''fast-forward'' = ''fast-forward''"
  by code_simp

lemma unsupported_merge_strategy_example:
  "finishPullRequest mergeEnv mergePlan (Some demoRepo) ''t0ken'' ''fast-forward'' (JNum 7) =
     ([Warning (UnsupportedMergeStrategy (JStr ''fast-forward''))],
      Inr \<lparr>prNumber = JNum 7, prUrl = Some demoRepo\<rparr>) \<and>
   prOutputs \<lparr>prNumber = JNum 7, prUrl = Some demoRepo\<rparr> =
     [SetOutput PrNumber (JNum 7), SetOutput (PrUrl demoRepo) (JNum 7)]"
proof -
  have h1: "snd (createOrUpdatePullRequest mergeEnv (Some demoRepo) (branchOf mergePlan)
      (baseOf mergePlan) (prSpecOf mergePlan) ''t0ken'') = Inr (JNum 7)"
    by (simp add: createOrUpdatePullRequest_def branchOf_def baseOf_def prSpecOf_def mergePlan_def
        js_or_def githubRequest_def mergeEnv_def ok_def ret_def emit_pair strict_eq_def)
  have h3: "shouldMerge mergePlan"
    by (simp add: shouldMerge_def prSpecOf_def mergePlan_def js_or_def strict_eq_def)
  have h4: "js_or (JStr ''fast-forward'') (getProp (prSpecOf mergePlan) ''mergeStrategy'') =
      JStr ''fast-forward''"
    by (simp add: js_or_def)
  have h6: "toLowerCase ''fast-forward'' \<notin> set mergeMethods"
    by (simp add: lower_fast_forward mergeMethods_def)
  have rv: "reviewStep mergeEnv mergePlan (Some demoRepo) ''t0ken'' (JNum 7) = ([], Inr ())"
    by (simp add: reviewStep_def prSpecOf_def mergePlan_def js_or_def ret_def)
  have h7: "snd (reviewStep mergeEnv mergePlan (Some demoRepo) ''t0ken'' (JNum 7)) = Inr ()"
    by (simp add: rv)
  show ?thesis
    using unsupported_merge_strategy_is_skipped[OF h1 _ h3 h4 _ h6 h7]
    by (simp add: rv)
qed

text \<open>
  The whole run of the example: it exits with code 0, creates the pull request after the
  commit and the push, sends no merge request, and sets the status, pr-number and pr-url
  outputs.
\<close>

lemma fast_forward_scenario:
  "snd (run mergeEnv) = 0 \<and>
   filter isCommitPushOrPr (fst (run mergeEnv)) =
     [RunGit [JStr ''commit'', JStr ''-m'', JStr ''PixelFrame agent updates''],
      RunGit [JStr ''push'', JStr ''origin'', JStr ''b1''],
      GitHubCall (CreatePull demoRepo (JStr ''b1'') (JStr ''main'') (DefaultTitle (JStr ''b1''))
        (JStr []) False)] \<and>
   filter isOutput (fst (run mergeEnv)) =
     [SetOutput Status (JStr ''completed''), SetOutput PrNumber (JNum 7),
      SetOutput (PrUrl demoRepo) (JNum 7)]"
  by code_simp

text \<open>
  C8. The claim fails where the strategy is not a string. The plan asks for a merge
  with the strategy 5 and no merge-strategy input is given: the pull request is
  created after the commit and the push, then \<^verbatim>\<open>mergeStrategy.toLowerCase()\<close> throws,
  and the run ends with exit code 1 having set neither the pr-number nor the pr-url
  output, instead of warning and skipping the merge.
\<close>

theorem numeric_merge_strategy_fails_the_run:
  "snd (run numberEnv) = 1 \<and>
   last (fst (run numberEnv)) = SetFailed TypeError \<and>
   filter isCommitPushOrPr (fst (run numberEnv)) =
     [RunGit [JStr ''commit'', JStr ''-m'', JStr ''PixelFrame agent updates''],
      RunGit [JStr ''push'', JStr ''origin'', JStr ''b1''],
      GitHubCall (CreatePull demoRepo (JStr ''b1'') (JStr ''main'') (DefaultTitle (JStr ''b1''))
        (JStr []) False)] \<and>
   filter isOutput (fst (run numberEnv)) = [SetOutput Status (JStr ''completed'')]"
  by code_simp

end
